theory Spec2Isabelle
  imports Main "HOL-Library.Log_Nat" "HOL-Library.Signed_Division" "HOL-Library.Multiset"
begin

section \<open>JavaScript values used by the components\<close>

subsection \<open>Strings\<close>

text \<open>
  A JavaScript string is a sequence of UTF-16 code units. A code unit is modelled as a
  natural number (the numbers below \<open>65536\<close> are the code units that exist); the only
  operation that produces a code unit from a number, \<open>String.fromCharCode\<close>, reduces it
  modulo \<open>2 ^ 16\<close> explicitly. \<open>js\<close> turns an Isabelle literal into such a string.
\<close>

type_synonym code_unit = nat
type_synonym js_string = "code_unit list"

definition js :: "string \<Rightarrow> js_string" where
  "js s = map of_char s"

text \<open>\<open>WhiteSpace\<close> and \<open>LineTerminator\<close> of ECMAScript: what \<open>trim\<close>, \<open>parseInt\<close> and
  \<open>BigInt\<close> strip.\<close>

definition isWhiteSpace :: "code_unit \<Rightarrow> bool" where
  "isWhiteSpace c =
     (c = 9 \<or> c = 10 \<or> c = 11 \<or> c = 12 \<or> c = 13 \<or> c = 32 \<or> c = 160 \<or> c = 5760
      \<or> (8192 \<le> c \<and> c \<le> 8202) \<or> c = 8232 \<or> c = 8233 \<or> c = 8239 \<or> c = 8287
      \<or> c = 12288 \<or> c = 65279)"

definition trimStart :: "js_string \<Rightarrow> js_string" where
  "trimStart s = dropWhile isWhiteSpace s"

definition trimEnd :: "js_string \<Rightarrow> js_string" where
  "trimEnd s = rev (dropWhile isWhiteSpace (rev s))"

definition trim :: "js_string \<Rightarrow> js_string" where
  "trim s = trimEnd (trimStart s)"

text \<open>\<open>s.slice(a, b)\<close> and \<open>s.slice(a)\<close> for non-negative integer literals: both ends are
  clamped to the length, and an empty range gives the empty string.\<close>

definition slice :: "js_string \<Rightarrow> nat \<Rightarrow> nat \<Rightarrow> js_string" where
  "slice s a b = take (b - a) (drop a s)"

definition slice_from :: "js_string \<Rightarrow> nat \<Rightarrow> js_string" where
  "slice_from s a = drop a s"

definition startsWith :: "js_string \<Rightarrow> js_string \<Rightarrow> bool" where
  "startsWith s p = (take (length p) s = p)"

text \<open>\<open>s.padStart(n, "0")\<close>: the string itself when it already has \<open>n\<close> code units or more.\<close>

definition padStart0 :: "js_string \<Rightarrow> nat \<Rightarrow> js_string" where
  "padStart0 s n = replicate (n - length s) 48 @ s"

subsection \<open>Numbers\<close>

text \<open>
  The Number values that occur here come from \<open>Number(bigint)\<close>, \<open>parseInt\<close> and sums and
  products of those: integer-valued doubles, the two infinities and \<open>NaN\<close>. Negative zero
  is identified with zero: the code applies only \<open>=== 0\<close>, \<open>ToUint16\<close> and \<open>slice\<close> to a
  value that may be \<open>-0\<close>, and none of them tells the two apart.
\<close>

datatype js_number = Finite int | PosInfinity | NegInfinity | NaN

text \<open>The double nearest to an integer (round to nearest, ties to even, 53 significant
  bits); from \<open>2 ^ 1024\<close> on the rounded magnitude is an infinity.\<close>

definition to_double :: "int \<Rightarrow> js_number" where
  "to_double n =
     (let a = \<bar>n\<bar>; e = bitlen a in
      if e \<le> 53 then Finite n
      else
        let sh = nat (e - 53);
            q = a div 2 ^ sh;
            r = a mod 2 ^ sh;
            h = 2 ^ (sh - 1);
            q' = (if h < r \<or> (r = h \<and> odd q) then q + 1 else q);
            v = q' * 2 ^ sh
        in if 2 ^ 1024 \<le> v then (if n < 0 then NegInfinity else PosInfinity)
           else Finite (sgn n * v))"

fun js_add :: "js_number \<Rightarrow> js_number \<Rightarrow> js_number" where
  "js_add (Finite a) (Finite b) = to_double (a + b)"
| "js_add NaN _ = NaN"
| "js_add _ NaN = NaN"
| "js_add PosInfinity NegInfinity = NaN"
| "js_add NegInfinity PosInfinity = NaN"
| "js_add PosInfinity _ = PosInfinity"
| "js_add _ PosInfinity = PosInfinity"
| "js_add NegInfinity _ = NegInfinity"
| "js_add _ NegInfinity = NegInfinity"

definition js_sign :: "js_number \<Rightarrow> int" where
  "js_sign x = (case x of Finite a \<Rightarrow> sgn a | PosInfinity \<Rightarrow> 1 | NegInfinity \<Rightarrow> - 1 | NaN \<Rightarrow> 0)"

fun js_mult :: "js_number \<Rightarrow> js_number \<Rightarrow> js_number" where
  "js_mult (Finite a) (Finite b) = to_double (a * b)"
| "js_mult NaN _ = NaN"
| "js_mult _ NaN = NaN"
| "js_mult x y =
     (if js_sign x * js_sign y = 0 then NaN
      else if 0 < js_sign x * js_sign y then PosInfinity else NegInfinity)"

definition isFinite :: "js_number \<Rightarrow> bool" where
  "isFinite x = (case x of Finite _ \<Rightarrow> True | _ \<Rightarrow> False)"

text \<open>\<open>ToUint16\<close>, applied by \<open>String.fromCharCode\<close> to each argument.\<close>

definition ToUint16 :: "js_number \<Rightarrow> code_unit" where
  "ToUint16 x = (case x of Finite i \<Rightarrow> nat (i mod 65536) | _ \<Rightarrow> 0)"

definition fromCharCode :: "js_number list \<Rightarrow> js_string" where
  "fromCharCode arr = map ToUint16 arr"

text \<open>The end index of \<open>s.slice(a, e)\<close> when \<open>e\<close> is a computed Number and \<open>a\<close> a
  non-negative literal: \<open>ToIntegerOrInfinity\<close>, a negative index counted from the end,
  then clamped to the length.\<close>

definition slice_index :: "nat \<Rightarrow> js_number \<Rightarrow> nat" where
  "slice_index len x =
     (case x of
        Finite i \<Rightarrow> (if i < 0 then nat (max (int len + i) 0) else min (nat i) len)
      | PosInfinity \<Rightarrow> len
      | NegInfinity \<Rightarrow> 0
      | NaN \<Rightarrow> 0)"

definition slice_num :: "js_string \<Rightarrow> nat \<Rightarrow> js_number \<Rightarrow> js_string" where
  "slice_num s a e = slice s a (slice_index (length s) e)"

subsection \<open>Digits, \<open>BigInt\<close> and \<open>parseInt\<close>\<close>

definition digitValue :: "code_unit \<Rightarrow> nat option" where
  "digitValue c =
     (if 48 \<le> c \<and> c \<le> 57 then Some (c - 48)
      else if 97 \<le> c \<and> c \<le> 122 then Some (c - 87)
      else if 65 \<le> c \<and> c \<le> 90 then Some (c - 55)
      else None)"

definition isRadixDigit :: "nat \<Rightarrow> code_unit \<Rightarrow> bool" where
  "isRadixDigit R c = (case digitValue c of Some v \<Rightarrow> v < R | None \<Rightarrow> False)"

definition digitOf :: "code_unit \<Rightarrow> nat" where
  "digitOf c = (case digitValue c of Some v \<Rightarrow> v | None \<Rightarrow> 0)"

definition radixValue :: "nat \<Rightarrow> js_string \<Rightarrow> nat" where
  "radixValue R ds = foldl (\<lambda>acc c. acc * R + digitOf c) 0 ds"

datatype js_error =
    SyntaxError
  | NetworkError
  | JsonError
  | HttpError nat
  | RpcError js_string
  | EmptyResult
  | RangeError

text \<open>\<open>StringToBigInt\<close>: the trimmed text is empty (zero), a \<open>0x\<close>, \<open>0b\<close> or \<open>0o\<close> literal
  with at least one digit, or decimal digits with an optional sign; anything else is no
  BigInt and \<open>BigInt(string)\<close> throws a \<open>SyntaxError\<close>.\<close>

definition digitsValue :: "nat \<Rightarrow> js_string \<Rightarrow> int option" where
  "digitsValue R ds =
     (if ds \<noteq> [] \<and> list_all (isRadixDigit R) ds then Some (int (radixValue R ds)) else None)"

definition StringToBigInt :: "js_string \<Rightarrow> int option" where
  "StringToBigInt str =
     (let s = trim str in
      if s = [] then Some 0
      else if take 2 s = js ''0x'' \<or> take 2 s = js ''0X'' then digitsValue 16 (drop 2 s)
      else if take 2 s = js ''0b'' \<or> take 2 s = js ''0B'' then digitsValue 2 (drop 2 s)
      else if take 2 s = js ''0o'' \<or> take 2 s = js ''0O'' then digitsValue 8 (drop 2 s)
      else if take 1 s = js ''+'' then digitsValue 10 (drop 1 s)
      else if take 1 s = js ''-'' then map_option uminus (digitsValue 10 (drop 1 s))
      else digitsValue 10 s)"

definition BigInt :: "js_string \<Rightarrow> js_error + int" where
  "BigInt str = (case StringToBigInt str of None \<Rightarrow> Inl SyntaxError | Some n \<Rightarrow> Inr n)"

text \<open>\<open>Number(bigint)\<close>.\<close>

definition Number :: "int \<Rightarrow> js_number" where
  "Number n = to_double n"

text \<open>\<open>parseInt(str, 16)\<close>: leading white space, a sign and a \<open>0x\<close> prefix are skipped, the
  longest run of hexadecimal digits is read, and no digit at all gives \<open>NaN\<close>.\<close>

definition parseInt16 :: "js_string \<Rightarrow> js_number" where
  "parseInt16 str =
     (let s = trimStart str;
          neg = (take 1 s = js ''-'');
          s1 = (if take 1 s = js ''+'' \<or> take 1 s = js ''-'' then drop 1 s else s);
          s2 = (if take 2 s1 = js ''0x'' \<or> take 2 s1 = js ''0X'' then drop 2 s1 else s1);
          z = takeWhile (isRadixDigit 16) s2
      in if z = [] then NaN
         else to_double ((if neg then - 1 else 1) * int (radixValue 16 z)))"

subsection \<open>Limits of the engine\<close>

text \<open>
  ECMAScript leaves to the engine how many arguments a call may have, how many bits a
  BigInt and how many code units a string; an engine throws a \<open>RangeError\<close> where its
  limit is passed. The limits of the engine that runs the code are a parameter of the
  model. They are applied at the three operations whose size is set by a Number read from
  a reply: the call \<open>String.fromCharCode(...arr)\<close> in the dynamic branch of the decoder,
  the power \<open>10n ** BigInt(decimals)\<close> and the padding \<open>padStart(decimals, "0")\<close> in
  \<open>formatUnits\<close>. The other strings and BigInts are made from the text of a reply or from
  an amount that the engine already holds, and are taken to fit.
\<close>

record engine =
  maxArguments :: nat
  maxBigIntBits :: nat
  maxStringLength :: nat

text \<open>\<open>String.fromCharCode(...arr)\<close>: the elements of \<open>arr\<close> are the arguments of one call.\<close>

definition fromCharCode_spread :: "engine \<Rightarrow> js_number list \<Rightarrow> js_error + js_string" where
  "fromCharCode_spread eng arr =
     (if maxArguments eng < length arr then Inl RangeError else Inr (fromCharCode arr))"

text \<open>\<open>b ** e\<close> on BigInts: a negative exponent and a result of more bits than the engine
  holds are a \<open>RangeError\<close>.\<close>

definition bigint_pow :: "engine \<Rightarrow> int \<Rightarrow> int \<Rightarrow> js_error + int" where
  "bigint_pow eng b e =
     (if e < 0 then Inl RangeError
      else if maxBigIntBits eng < nat (bitlen \<bar>b ^ nat e\<bar>) then Inl RangeError
      else Inr (b ^ nat e))"

text \<open>An engine for the concrete evaluations below, with limits of the order of those of
  the engines in use.\<close>

definition sample_engine :: engine where
  "sample_engine = \<lparr>maxArguments = 65536, maxBigIntBits = 2 ^ 30, maxStringLength = 2 ^ 29 - 24\<rparr>"

section \<open>The ABI string decoder\<close>

text \<open>
  The fixed-width branch of \<open>tryDecodeStringFromAbi\<close>:
  \<^verbatim>\<open>for (let i = 0; i < 64; i += 2) { v = parseInt(bytes.slice(i, i + 2), 16);
       if (v === 0) break; arr.push(v); }\<close>
  The recursion walks the remaining text two code units at a time; the text has 64 code
  units, so every slice has two.
\<close>

fun fixed_loop :: "js_string \<Rightarrow> js_number list" where
  "fixed_loop (a # b # rest) =
     (let v = parseInt16 [a, b] in if v = Finite 0 then [] else v # fixed_loop rest)"
| "fixed_loop _ = []"

text \<open>
  The loop of the dynamic branch:
  \<^verbatim>\<open>for (let i = 0; i < bytesHex.length; i += 2) arr.push(parseInt(bytesHex.slice(i, i + 2), 16));\<close>
  The last slice has one code unit when the length is odd.
\<close>

fun dynamic_loop :: "js_string \<Rightarrow> js_number list" where
  "dynamic_loop [] = []"
| "dynamic_loop [a] = [parseInt16 [a]]"
| "dynamic_loop (a # b # rest) = parseInt16 [a, b] # dynamic_loop rest"

text \<open>\<open>String.fromCharCode(...arr) || null\<close>: the empty string is falsy. In the fixed-width
  branch \<open>arr\<close> has at most 32 elements, which every engine accepts as arguments.\<close>

definition or_null :: "js_string \<Rightarrow> js_string option" where
  "or_null s = (if s = [] then None else Some s)"

text \<open>\<^verbatim>\<open>const start = 128; const bytesHex = data.slice(start, start + len * 2);\<close>\<close>

definition bytesHex_of :: "js_string \<Rightarrow> js_number \<Rightarrow> js_string" where
  "bytesHex_of data len =
     (let start = 128 in slice_num data start (js_add (Finite (int start)) (js_mult len (Finite 2))))"

text \<open>The body of the \<open>try\<close> block in \<open>TokenBalances.tsx\<close>. \<open>offset\<close> is computed and not
  used, but its \<open>BigInt\<close> can throw; so can \<open>String.fromCharCode(...arr)\<close> in the dynamic
  branch, where \<open>arr\<close> has one element for each byte of the payload.\<close>

definition decode_body :: "engine \<Rightarrow> js_string \<Rightarrow> js_error + js_string option" where
  "decode_body eng data =
     (if length data = 64 then Inr (or_null (fromCharCode (fixed_loop data)))
      else
        case BigInt (js ''0x'' @ slice data 0 64) of
          Inl e \<Rightarrow> Inl e
        | Inr offset \<Rightarrow>
            (case BigInt (js ''0x'' @ slice data 64 128) of
               Inl e \<Rightarrow> Inl e
             | Inr n \<Rightarrow>
                 let len = Number n;
                     bytesHex = bytesHex_of data len
                 in case fromCharCode_spread eng (dynamic_loop bytesHex) of
                      Inl e \<Rightarrow> Inl e
                    | Inr s \<Rightarrow> Inr (Some s)))"

text \<open>The body of the \<open>try\<close> block in \<open>NFTBalances.tsx\<close>: the same without the \<open>offset\<close>
  line.\<close>

definition decode_body_nft :: "engine \<Rightarrow> js_string \<Rightarrow> js_error + js_string option" where
  "decode_body_nft eng data =
     (if length data = 64 then Inr (or_null (fromCharCode (fixed_loop data)))
      else
        case BigInt (js ''0x'' @ slice data 64 128) of
          Inl e \<Rightarrow> Inl e
        | Inr n \<Rightarrow>
            let len = Number n;
                bytesHex = bytesHex_of data len
            in case fromCharCode_spread eng (dynamic_loop bytesHex) of
                 Inl e \<Rightarrow> Inl e
               | Inr s \<Rightarrow> Inr (Some s))"

text \<open>\<open>try { ... } catch { return null; }\<close>\<close>

definition catch_null :: "js_error + 'a option \<Rightarrow> js_error + 'a option" where
  "catch_null r = (case r of Inl e \<Rightarrow> Inr None | Inr v \<Rightarrow> Inr v)"

text \<open>\<open>tryDecodeStringFromAbi\<close> of \<open>TokenBalances.tsx\<close>. The result is \<open>Inl\<close> for an
  exception that reaches the caller, \<open>Inr None\<close> for \<open>null\<close>.\<close>

definition tryDecodeStringFromAbi :: "engine \<Rightarrow> js_string \<Rightarrow> js_error + js_string option" where
  "tryDecodeStringFromAbi eng hex =
     (if hex = [] \<or> \<not> startsWith hex (js ''0x'') then Inr None
      else let data = slice_from hex 2 in catch_null (decode_body eng data))"

text \<open>\<open>tryDecodeStringFromAbi\<close> of \<open>NFTBalances.tsx\<close>.\<close>

definition tryDecodeStringFromAbi_nft :: "engine \<Rightarrow> js_string \<Rightarrow> js_error + js_string option" where
  "tryDecodeStringFromAbi_nft eng hex =
     (if hex = [] \<or> \<not> startsWith hex (js ''0x'') then Inr None
      else let data = slice_from hex 2 in catch_null (decode_body_nft eng data))"

subsection \<open>What the decoder is compared with\<close>

text \<open>A payload is a hex payload when each of its code units is a hexadecimal digit.\<close>

definition isHex :: "js_string \<Rightarrow> bool" where
  "isHex s = list_all (isRadixDigit 16) s"

text \<open>The bytes a hex text denotes, two digits to a byte from the left; a last digit
  without a partner counts as a byte of its own.\<close>

fun hexBytes :: "js_string \<Rightarrow> nat list" where
  "hexBytes [] = []"
| "hexBytes [a] = [digitOf a]"
| "hexBytes (a # b # rest) = (16 * digitOf a + digitOf b) # hexBytes rest"

text \<open>The fixed \<open>bytes32\<close> convention in the words of the specification: the bytes up to
  the first zero byte or the end of the buffer, each byte a character, and \<open>null\<close> for an
  empty run.\<close>

definition bytes32_string :: "js_string \<Rightarrow> js_string option" where
  "bytes32_string data =
     (let run = takeWhile (\<lambda>b. b \<noteq> 0) (hexBytes data) in if run = [] then None else Some run)"

section \<open>Encoding helpers and the amount formatter\<close>

text \<open>\<^verbatim>\<open>function pad32(hexNo0x) { return hexNo0x.padStart(64, "0"); }\<close>\<close>

definition pad32 :: "js_string \<Rightarrow> js_string" where
  "pad32 hexNo0x = padStart0 hexNo0x 64"

text \<open>\<open>padLeftTo32Bytes\<close> in the words of the specification: pad to exactly 64 digits, fail
  with \<open>OversizeValue\<close> on more than 64.\<close>

datatype codec_error = OversizeValue

definition padLeftTo32Bytes_spec :: "js_string \<Rightarrow> codec_error + js_string" where
  "padLeftTo32Bytes_spec hexDigits =
     (if 64 < length hexDigits then Inl OversizeValue
      else Inr (replicate (64 - length hexDigits) 48 @ hexDigits))"

text \<open>\<open>bigint.toString()\<close>: the decimal digits, after a minus sign for a negative value.\<close>

function decimalDigits :: "nat \<Rightarrow> js_string" where
  "decimalDigits n = (if n < 10 then [48 + n] else decimalDigits (n div 10) @ [48 + n mod 10])"
  by pat_completeness auto
termination
  by (relation "measure (\<lambda>n. n)") auto

declare decimalDigits.simps [simp del]

definition toString :: "int \<Rightarrow> js_string" where
  "toString n = (if n < 0 then 45 # decimalDigits (nat (- n)) else decimalDigits (nat n))"

text \<open>\<open>s.replace(/0+$/g, "")\<close>: the zeros at the end are removed.\<close>

definition stripTrailingZeros :: "js_string \<Rightarrow> js_string" where
  "stripTrailingZeros s = rev (dropWhile (\<lambda>c. c = 48) (rev s))"

text \<open>\<open>decimals <= 0\<close>, \<open>BigInt(decimals)\<close> (a \<open>RangeError\<close> unless the Number is an integer) and
  \<open>s.padStart(decimals, "0")\<close>, which applies \<open>ToLength\<close> to its first argument and
  throws a \<open>RangeError\<close> when it has to build a string longer than the engine allows.\<close>

definition le_zero :: "js_number \<Rightarrow> bool" where
  "le_zero x = (case x of Finite d \<Rightarrow> d \<le> 0 | NegInfinity \<Rightarrow> True | _ \<Rightarrow> False)"

definition BigInt_of_number :: "js_number \<Rightarrow> js_error + int" where
  "BigInt_of_number x = (case x of Finite d \<Rightarrow> Inr d | _ \<Rightarrow> Inl RangeError)"

definition ToLength :: "js_number \<Rightarrow> nat" where
  "ToLength x =
     (case x of Finite d \<Rightarrow> nat (min (max d 0) (2 ^ 53 - 1)) | PosInfinity \<Rightarrow> 2 ^ 53 - 1 | _ \<Rightarrow> 0)"

text \<open>
  \<^verbatim>\<open>function formatUnits(wei: bigint, decimals: number): string {
    if (decimals <= 0) return wei.toString();
    const base = 10n ** BigInt(decimals);
    const whole = wei / base;
    const frac = wei % base;
    const fracStr = frac.toString().padStart(decimals, "0");
    const trimmed = fracStr.replace(/0+$/g, "");
    return trimmed.length ? `${whole.toString()}.${trimmed}` : whole.toString();
  }\<close>
  BigInt division truncates towards zero and the remainder has the sign of the dividend
  (\<open>sdiv\<close>, \<open>smod\<close>). The power and the padding are the two steps whose result grows with
  \<open>decimals\<close> alone, and where the engine throws for a large \<open>decimals\<close>.
\<close>

definition padStart_zero :: "engine \<Rightarrow> js_string \<Rightarrow> js_number \<Rightarrow> js_error + js_string" where
  "padStart_zero eng s maxLength =
     (let n = ToLength maxLength in
      if length s < n \<and> maxStringLength eng < n then Inl RangeError else Inr (padStart0 s n))"

definition formatUnits :: "engine \<Rightarrow> int \<Rightarrow> js_number \<Rightarrow> js_error + js_string" where
  "formatUnits eng wei decimals =
     (if le_zero decimals then Inr (toString wei)
      else
        case BigInt_of_number decimals of
          Inl e \<Rightarrow> Inl e
        | Inr d \<Rightarrow>
            (case bigint_pow eng 10 d of
               Inl e \<Rightarrow> Inl e
             | Inr base \<Rightarrow>
                 let whole = wei sdiv base;
                     frac = wei smod base
                 in case padStart_zero eng (toString frac) decimals of
                      Inl e \<Rightarrow> Inl e
                    | Inr fracStr \<Rightarrow>
                        let trimmed = stripTrailingZeros fracStr
                        in Inr (if trimmed \<noteq> [] then toString whole @ js ''.'' @ trimmed
                                else toString whole)))"

text \<open>
  The formatter in the words of the specification. \<open>fixedDigits d n\<close> is \<open>n\<close> written with
  exactly \<open>d\<close> decimal digits, the digit of \<open>10 ^ (d - 1)\<close> first.
\<close>

definition fixedDigits :: "nat \<Rightarrow> nat \<Rightarrow> js_string" where
  "fixedDigits d n = map (\<lambda>i. 48 + (n div 10 ^ (d - 1 - i)) mod 10) [0..<d]"

definition format_spec :: "int \<Rightarrow> nat \<Rightarrow> js_string" where
  "format_spec amount d =
     (let whole = amount div 10 ^ d;
          frac = amount mod 10 ^ d;
          trimmedFrac = stripTrailingZeros (fixedDigits d (nat frac))
      in if trimmedFrac = [] then toString whole else toString whole @ js ''.'' @ trimmedFrac)"

text \<open>Reading a formatted amount back: the digits before the point count units of
  \<open>10 ^ d\<close>, the digits after it are completed with zeros to \<open>d\<close> places.\<close>

definition units_of_string :: "js_string \<Rightarrow> nat \<Rightarrow> int" where
  "units_of_string s d =
     (let w = takeWhile (\<lambda>c. c \<noteq> 46) s;
          f = drop 1 (dropWhile (\<lambda>c. c \<noteq> 46) s)
      in int (radixValue 10 w) * 10 ^ d + int (radixValue 10 (f @ replicate (d - length f) 48)))"

section \<open>JSON-RPC calls\<close>

text \<open>
  \<^verbatim>\<open>type RpcRequest = { jsonrpc: "2.0"; id: number; method: string; params: unknown[] };
  type RpcResponse<T> = { jsonrpc: "2.0"; id: number; result?: T;
                          error?: { code: number; message: string } };\<close>
  The constant field \<open>jsonrpc\<close> is left out, \<open>id\<close> is named \<open>req_id\<close> and \<open>resp_id\<close>, and
  the field \<open>method\<close> of a request is named \<open>rpc_method\<close>.
  An optional field is an \<open>option\<close>. The replies are taken at their declared types.
\<close>

record RpcRequest =
  req_id :: int
  rpc_method :: js_string
  params :: "js_string list"

record RpcErrorObject =
  code :: int
  message :: js_string

record RpcResponse =
  resp_id :: int
  result :: "js_string option"
  error :: "RpcErrorObject option"

text \<open>What \<open>await fetch(...)\<close> followed by \<open>await res.json()\<close> can give: the request is
  rejected (no connection), or there is a response with \<open>res.ok\<close>, \<open>res.status\<close> and a
  body that parses to JSON or does not.\<close>

datatype 'a http_outcome = Rejected | Response bool nat "'a option"

text \<open>
  \<^verbatim>\<open>async function rpcCall<T = string>(method, params): Promise<T> {
    ...
    if (!res.ok) throw new Error(`RPC HTTP error ${res.status}`);
    const body: RpcResponse<T> = await res.json();
    if (body.error) throw new Error(body.error.message);
    if (body.result === undefined) throw new Error("Empty RPC result");
    return body.result;
  }\<close>
  as a function of the outcome of the request.
\<close>

definition rpcCall :: "RpcResponse http_outcome \<Rightarrow> js_error + js_string" where
  "rpcCall h =
     (case h of
        Rejected \<Rightarrow> Inl NetworkError
      | Response ok status json \<Rightarrow>
          if \<not> ok then Inl (HttpError status)
          else
            case json of
              None \<Rightarrow> Inl JsonError
            | Some body \<Rightarrow>
                (case error body of
                   Some err \<Rightarrow> Inl (RpcError (message err))
                 | None \<Rightarrow>
                     (case result body of
                        None \<Rightarrow> Inl EmptyResult
                      | Some r \<Rightarrow> Inr r)))"

definition hexToBigInt :: "js_string \<Rightarrow> js_error + int" where
  "hexToBigInt hex = BigInt hex"

section \<open>Token metadata\<close>

text \<open>
  \<^verbatim>\<open>type TokenMeta = { address: string; symbol: string; decimals: number };
  type NftMeta = { address: string; name: string; symbol: string };\<close>
  The two share \<open>address\<close> and \<open>symbol\<close>; the registry code of both components reads
  \<open>address\<close> only and is modelled once, on every extension of \<open>Meta\<close>.
\<close>

record Meta =
  address :: js_string
  symbol :: js_string

record TokenMeta = Meta +
  decimals :: js_number

record NftMeta = Meta +
  name :: js_string

text \<open>
  \<^verbatim>\<open>async function getTokenMeta(address: string): Promise<TokenMeta> {
    const decimalsHex = await rpcCall<string>("eth_call", [{ to: address, data: encodeDecimals() }, "latest"]);
    const decimals = Number(hexToBigInt(decimalsHex));
    let symbol = "?";
    try {
      const symbolRes = await rpcCall<string>("eth_call", [{ to: address, data: encodeSymbol() }, "latest"]);
      const s = tryDecodeStringFromAbi(symbolRes);
      if (s) symbol = s;
    } catch {
      symbol = "?";
    }
    return { address, symbol, decimals: Number.isFinite(decimals) ? decimals : 18 };
  }\<close>
  as a function of the outcomes of the two requests. \<open>symbol_of\<close> is the \<open>try\<close> statement.
\<close>

definition symbol_of :: "engine \<Rightarrow> RpcResponse http_outcome \<Rightarrow> js_string" where
  "symbol_of eng symbolReply =
     (case rpcCall symbolReply of
        Inl e \<Rightarrow> js ''?''
      | Inr symbolRes \<Rightarrow>
          (case tryDecodeStringFromAbi eng symbolRes of
             Inl e \<Rightarrow> js ''?''
           | Inr None \<Rightarrow> js ''?''
           | Inr (Some s) \<Rightarrow> if s \<noteq> [] then s else js ''?''))"

definition getTokenMeta ::
  "engine \<Rightarrow> js_string \<Rightarrow> RpcResponse http_outcome \<Rightarrow> RpcResponse http_outcome
   \<Rightarrow> js_error + TokenMeta" where
  "getTokenMeta eng addr decimalsReply symbolReply =
     (case rpcCall decimalsReply of
        Inl e \<Rightarrow> Inl e
      | Inr decimalsHex \<Rightarrow>
          (case hexToBigInt decimalsHex of
             Inl e \<Rightarrow> Inl e
           | Inr n \<Rightarrow>
               let decimals = Number n;
                   symbol = symbol_of eng symbolReply
               in Inr \<lparr>address = addr, symbol = symbol,
                        decimals = (if isFinite decimals then decimals else Finite 18)\<rparr>))"

text \<open>
  \<^verbatim>\<open>async function getNftMeta(address: string): Promise<NftMeta> {
    let name = "?";
    let symbol = "?";
    try {
      const nameHex = await rpcCall<string>("eth_call", [{ to: address, data: encodeName() }, "latest"]);
      const n = tryDecodeStringFromAbi(nameHex);
      if (n) name = n;
    } catch {}
    try { ... symHex ... if (s) symbol = s; } catch {}
    return { address, name, symbol };
  }\<close>
  \<open>nft_text_of\<close> is each of the two \<open>try\<close> statements; the decoder is the one of
  \<open>NFTBalances.tsx\<close>.
\<close>

definition nft_text_of :: "engine \<Rightarrow> RpcResponse http_outcome \<Rightarrow> js_string" where
  "nft_text_of eng reply =
     (case rpcCall reply of
        Inl e \<Rightarrow> js ''?''
      | Inr hex \<Rightarrow>
          (case tryDecodeStringFromAbi_nft eng hex of
             Inl e \<Rightarrow> js ''?''
           | Inr None \<Rightarrow> js ''?''
           | Inr (Some s) \<Rightarrow> if s \<noteq> [] then s else js ''?''))"

definition getNftMeta ::
  "engine \<Rightarrow> js_string \<Rightarrow> RpcResponse http_outcome \<Rightarrow> RpcResponse http_outcome \<Rightarrow> NftMeta" where
  "getNftMeta eng addr nameReply symbolReply =
     \<lparr>address = addr, symbol = nft_text_of eng symbolReply, name = nft_text_of eng nameReply\<rparr>"

text \<open>\<^verbatim>\<open>async function getTokenBalance(token, wallet): Promise<bigint>\<close> and \<open>getNftBalance\<close>:
  one \<open>eth_call\<close>, whose result goes to \<open>hexToBigInt\<close>.\<close>

definition getTokenBalance :: "RpcResponse http_outcome \<Rightarrow> js_error + int" where
  "getTokenBalance reply =
     (case rpcCall reply of Inl e \<Rightarrow> Inl e | Inr res \<Rightarrow> hexToBigInt res)"

section \<open>The batch of \<open>page.tsx\<close>\<close>

text \<open>
  \<^verbatim>\<open>const byId = new Map<number, RpcResponse<string>>();
  for (const r of data) byId.set(r.id, r);
  return reqs.map((r) => {
    const resp = byId.get(r.id);
    if (!resp) return null;
    if (resp.error) return null;
    const hex = resp.result as string | undefined;
    if (!hex) return null;
    try { return BigInt(hex); } catch { return null; }
  });\<close>
\<close>

definition byId_of :: "RpcResponse list \<Rightarrow> (int \<rightharpoonup> RpcResponse)" where
  "byId_of data = foldl (\<lambda>m r. m(resp_id r \<mapsto> r)) Map.empty data"

definition slot_of :: "RpcResponse option \<Rightarrow> int option" where
  "slot_of found =
     (case found of
        None \<Rightarrow> None
      | Some resp \<Rightarrow>
          if error resp \<noteq> None then None
          else
            case result resp of
              None \<Rightarrow> None
            | Some hex \<Rightarrow>
                if hex = [] then None
                else (case BigInt hex of Inl e \<Rightarrow> None | Inr n \<Rightarrow> Some n))"

definition correlate :: "RpcRequest list \<Rightarrow> RpcResponse list \<Rightarrow> int option list" where
  "correlate reqs data = (let byId = byId_of data in map (\<lambda>r. slot_of (byId (req_id r))) reqs)"

text \<open>
  \<^verbatim>\<open>const reqs = addresses.map((addr, i) => ({ jsonrpc: "2.0", id: i + 1,
      method: "eth_getBalance", params: [addr, "latest"] }));\<close>
\<close>

definition requests_of :: "js_string list \<Rightarrow> RpcRequest list" where
  "requests_of addresses =
     map (\<lambda>(i, addr). \<lparr>req_id = int i + 1, rpc_method = js ''eth_getBalance'',
                         params = [addr, js ''latest'']\<rparr>)
       (enumerate 0 addresses)"

text \<open>\<open>fetchBalances\<close>: every failure inside the \<open>try\<close> block, a rejected request, a status
  that is not ok or a body that is no JSON, gives \<open>null\<close> for every address.\<close>

definition fetchBalances :: "js_string list \<Rightarrow> RpcResponse list http_outcome \<Rightarrow> int option list" where
  "fetchBalances addresses reply =
     (let reqs = requests_of addresses in
      case reply of
        Rejected \<Rightarrow> map (\<lambda>_. None) addresses
      | Response ok status json \<Rightarrow>
          if \<not> ok then map (\<lambda>_. None) addresses
          else
            case json of
              None \<Rightarrow> map (\<lambda>_. None) addresses
            | Some data \<Rightarrow> correlate reqs data)"

section \<open>The components \<open>TokenBalances\<close> and \<open>NFTBalances\<close>\<close>

text \<open>\<^verbatim>\<open>function isAddress(addr) { return /^0x[a-fA-F0-9]{40}$/.test(addr); }\<close>\<close>

definition isAddress :: "js_string \<Rightarrow> bool" where
  "isAddress addr =
     (length addr = 42 \<and> take 2 addr = js ''0x'' \<and> list_all (isRadixDigit 16) (drop 2 addr))"

text \<open>\<open>toLowerCase\<close> on the letters \<open>A\<close> to \<open>Z\<close>. The strings it is applied to are token
  addresses that have passed \<open>isAddress\<close>; no property below depends on what it does to
  other code units.\<close>

definition toLowerCase :: "js_string \<Rightarrow> js_string" where
  "toLowerCase s = map (\<lambda>c. if 65 \<le> c \<and> c \<le> 90 then c + 32 else c) s"

text \<open>The messages shown for a failed registration are display text; the model keeps
  which of the three it is.\<close>

datatype ui_error = InvalidAddress | AlreadyRegistered | MetaFailed js_error

text \<open>
  A call of \<open>refresh\<close> that is waiting for its \<open>eth_call\<close>: what its closure holds, the
  token found for the active address, the active wallet, and its local variable
  \<^verbatim>\<open>let cancelled = false\<close>.
\<close>

record 'm refresh_task =
  task_meta :: 'm
  task_wallet :: js_string
  cancelled :: bool

text \<open>
  The state of a component: its \<open>useState\<close> cells (\<open>error\<close> is named \<open>error_shown\<close>), and
  the promises in flight, the address held by each call of \<open>addToken\<close> that is waiting for
  the metadata and the calls of \<open>refresh\<close> that are waiting for a balance. \<open>'m\<close> is the
  type of the registry entries, \<open>TokenMeta\<close> or \<open>NftMeta\<close>.
\<close>

record 'm component =
  tokenInput :: js_string
  tokens :: "'m list"
  activeAddr :: "js_string option"
  walletByToken :: "js_string \<rightharpoonup> js_string"
  balances :: "js_string \<rightharpoonup> js_string option"
  error_shown :: "ui_error option"
  loadingToken :: bool
  isRefreshing :: bool
  updatedAt :: "nat option"
  addsInFlight :: "js_string list"
  refreshesInFlight :: "'m refresh_task list"

definition initial :: "'m component" where
  "initial =
     \<lparr>tokenInput = [], tokens = [], activeAddr = None, walletByToken = Map.empty,
      balances = Map.empty, error_shown = None, loadingToken = False, isRefreshing = False,
      updatedAt = None, addsInFlight = [], refreshesInFlight = []\<rparr>"

definition remove_nth :: "nat \<Rightarrow> 'a list \<Rightarrow> 'a list" where
  "remove_nth k xs = take k xs @ drop (Suc k) xs"

text \<open>\<^verbatim>\<open>tokens.find((t) => t.address.toLowerCase() === addr.toLowerCase())\<close>\<close>

definition find_token :: "('a Meta_scheme) list \<Rightarrow> js_string \<Rightarrow> 'a Meta_scheme option" where
  "find_token ts addr = find (\<lambda>t. toLowerCase (address t) = toLowerCase addr) ts"

text \<open>
  \<open>addToken\<close> up to its \<open>await\<close>:
  \<^verbatim>\<open>setError(null);
  const addr = tokenInput.trim();
  if (!isAddress(addr)) { setError(...); return; }
  if (tokens.find((t) => t.address.toLowerCase() === addr.toLowerCase())) { setError(...); return; }
  try { setLoadingToken(true); const meta = await getTokenMeta(addr);\<close>
\<close>

definition addToken_begin :: "('a Meta_scheme) component \<Rightarrow> ('a Meta_scheme) component" where
  "addToken_begin st =
     (let addr = trim (tokenInput st) in
      if \<not> isAddress addr then st\<lparr>error_shown := Some InvalidAddress\<rparr>
      else if find_token (tokens st) addr \<noteq> None then st\<lparr>error_shown := Some AlreadyRegistered\<rparr>
      else st\<lparr>error_shown := None, loadingToken := True,
                 addsInFlight := addsInFlight st @ [addr]\<rparr>)"

text \<open>
  \<open>addToken\<close> from its \<open>await\<close> on, for the call that holds \<open>addr\<close> and the outcome of
  its metadata fetch:
  \<^verbatim>\<open>    setTokens((prev) => [...prev, meta]);
      setTokenInput("");
      setActiveAddr(meta.address);
    } catch (e: any) { setError(e?.message || ...); }
    finally { setLoadingToken(false); }\<close>
\<close>

definition addToken_end ::
  "js_error + 'a Meta_scheme \<Rightarrow> ('a Meta_scheme) component \<Rightarrow> ('a Meta_scheme) component" where
  "addToken_end outcome st =
     (case outcome of
        Inr meta \<Rightarrow>
          st\<lparr>tokens := tokens st @ [meta], tokenInput := [], activeAddr := Some (address meta),
             loadingToken := False\<rparr>
      | Inl e \<Rightarrow> st\<lparr>error_shown := Some (MetaFailed e), loadingToken := False\<rparr>)"

text \<open>
  \<^verbatim>\<open>const removeToken = useCallback((addr: string) => {
    setTokens((prev) => prev.filter((t) => t.address.toLowerCase() !== addr.toLowerCase()));
    setBalances((prev) => { const n = { ...prev }; delete n[addr.toLowerCase()]; return n; });
    setWalletByToken((prev) => { const n = { ...prev }; delete n[addr]; return n; });
    setActiveAddr((cur) => (cur && cur.toLowerCase() === addr.toLowerCase() ? null : cur));
  }, []);\<close>
\<close>

definition removeToken :: "js_string \<Rightarrow> ('a Meta_scheme) component \<Rightarrow> ('a Meta_scheme) component" where
  "removeToken addr st =
     st\<lparr>tokens := filter (\<lambda>t. toLowerCase (address t) \<noteq> toLowerCase addr) (tokens st),
        balances := (balances st)(toLowerCase addr := None),
        walletByToken := (walletByToken st)(addr := None),
        activeAddr :=
          (case activeAddr st of
             None \<Rightarrow> None
           | Some cur \<Rightarrow> if cur \<noteq> [] \<and> toLowerCase cur = toLowerCase addr then None else Some cur)\<rparr>"

text \<open>
  \<^verbatim>\<open>const activeWallet = activeAddr ? (walletByToken[activeAddr] || "") : "";
  const validWallet = useMemo(() => isAddress(activeWallet), [activeWallet]);\<close>
\<close>

definition activeWallet :: "'m component \<Rightarrow> js_string" where
  "activeWallet st =
     (case activeAddr st of
        None \<Rightarrow> []
      | Some a \<Rightarrow> if a = [] then [] else (case walletByToken st a of None \<Rightarrow> [] | Some w \<Rightarrow> w))"

definition validWallet :: "'m component \<Rightarrow> bool" where
  "validWallet st = isAddress (activeWallet st)"

text \<open>
  \<open>refresh\<close> up to its \<open>await\<close>, called at time \<open>now\<close>:
  \<^verbatim>\<open>let cancelled = false;
  setIsRefreshing(true);
  try {
    if (!activeAddr) return;
    const meta = tokens.find((t) => t.address.toLowerCase() === activeAddr.toLowerCase());
    if (!meta) return;
    if (!validWallet) {
      setBalances((prev) => ({ ...prev, [activeAddr.toLowerCase()]: null }));
      setUpdatedAt(Date.now());
      return;
    }
    try { const raw = await getTokenBalance(meta.address, activeWallet);\<close>
  Each \<open>return\<close> passes through \<^verbatim>\<open>finally { if (!cancelled) setIsRefreshing(false); }\<close>.
\<close>

definition refresh_begin :: "nat \<Rightarrow> ('a Meta_scheme) component \<Rightarrow> ('a Meta_scheme) component" where
  "refresh_begin now st =
     (case activeAddr st of
        None \<Rightarrow> st\<lparr>isRefreshing := False\<rparr>
      | Some a \<Rightarrow>
          if a = [] then st\<lparr>isRefreshing := False\<rparr>
          else
            case find_token (tokens st) a of
              None \<Rightarrow> st\<lparr>isRefreshing := False\<rparr>
            | Some meta \<Rightarrow>
                if \<not> validWallet st then
                  st\<lparr>balances := (balances st)(toLowerCase a \<mapsto> None), updatedAt := Some now,
                     isRefreshing := False\<rparr>
                else
                  st\<lparr>isRefreshing := True,
                     refreshesInFlight := refreshesInFlight st @
                       [\<lparr>task_meta = meta, task_wallet = activeWallet st, cancelled = False\<rparr>]\<rparr>)"

text \<open>
  \<open>refresh\<close> from its \<open>await\<close> on, for a waiting call and the reply to its \<open>eth_call\<close>, at
  time \<open>now\<close>. \<open>fmt\<close> is what the component shows for a balance:
  \<open>formatUnits(raw, meta.decimals)\<close> in \<open>TokenBalances\<close>, \<open>raw.toString()\<close> in \<open>NFTBalances\<close>;
  an exception of \<open>formatUnits\<close> is caught like one of the request.
  \<^verbatim>\<open>      const formatted = formatUnits(raw, meta.decimals);
        if (!cancelled) {
          setBalances((prev) => ({ ...prev, [meta.address.toLowerCase()]: formatted }));
          setUpdatedAt(Date.now());
        }
      } catch {
        if (!cancelled) {
          setBalances((prev) => ({ ...prev, [meta.address.toLowerCase()]: null }));
          setUpdatedAt(Date.now());
        }
      }
    } finally { if (!cancelled) setIsRefreshing(false); }
    return () => { cancelled = true; };\<close>
  The function returned in the last line is the only code that assigns \<open>cancelled\<close>. It is
  the value of the promise of \<open>refresh\<close>; both callers, the effect
  \<^verbatim>\<open>useEffect(() => { refresh(); }, [refresh])\<close> and \<^verbatim>\<open>onClick={refresh}\<close>, drop that value, so no
  step of the component calls it.
\<close>

definition refresh_end ::
  "('a Meta_scheme \<Rightarrow> int \<Rightarrow> js_error + js_string) \<Rightarrow> nat \<Rightarrow> ('a Meta_scheme) refresh_task
   \<Rightarrow> RpcResponse http_outcome \<Rightarrow> ('a Meta_scheme) component \<Rightarrow> ('a Meta_scheme) component" where
  "refresh_end fmt now task reply st =
     (let meta = task_meta task;
          shown =
            (case getTokenBalance reply of
               Inl e \<Rightarrow> None
             | Inr raw \<Rightarrow> (case fmt meta raw of Inl e \<Rightarrow> None | Inr formatted \<Rightarrow> Some formatted))
      in if \<not> cancelled task then
           st\<lparr>balances := (balances st)(toLowerCase (address meta) \<mapsto> shown),
              updatedAt := Some now, isRefreshing := False\<rparr>
         else st)"

text \<open>
  \<^verbatim>\<open>useEffect(() => {
    if (!activeAddr && tokens.length > 0) { setActiveAddr(tokens[0].address); }
    else if (activeAddr && !tokens.find(...)) { setActiveAddr(tokens[0]?.address ?? null); }
  }, [tokens, activeAddr]);\<close>
\<close>

definition first_address :: "('a Meta_scheme) list \<Rightarrow> js_string option" where
  "first_address ts = (case ts of [] \<Rightarrow> None | t # _ \<Rightarrow> Some (address t))"

definition keepActiveValid :: "('a Meta_scheme) component \<Rightarrow> ('a Meta_scheme) component" where
  "keepActiveValid st =
     (case activeAddr st of
        None \<Rightarrow> if tokens st \<noteq> [] then st\<lparr>activeAddr := first_address (tokens st)\<rparr> else st
      | Some a \<Rightarrow>
          if a = [] then
            (if tokens st \<noteq> [] then st\<lparr>activeAddr := first_address (tokens st)\<rparr> else st)
          else if find_token (tokens st) a = None then
            st\<lparr>activeAddr := first_address (tokens st)\<rparr>
          else st)"

text \<open>
  What happens to a component: the user types in the token input, clicks the registration
  button, removes a token, selects a tab or types in the wallet input of the active token;
  React runs the effect that keeps the active tab valid or calls \<open>refresh\<close> (from the
  effect or the button) at some time; the metadata of a waiting registration or the
  balance of a waiting refresh arrives.
\<close>

datatype event =
    TypeTokenInput js_string
  | ClickAddToken
  | MetaArrives nat "RpcResponse http_outcome" "RpcResponse http_outcome"
  | ClickRemove js_string
  | SelectTab js_string
  | TypeWallet js_string
  | RunKeepActiveValid
  | CallRefresh nat
  | BalanceArrives nat nat "RpcResponse http_outcome"

text \<open>
  The handlers themselves, with no regard to whether the page lets the event happen.
  \<open>getMeta\<close> is the metadata fetch of the component and \<open>fmt\<close> its balance text.
\<close>

definition handle ::
  "(js_string \<Rightarrow> RpcResponse http_outcome \<Rightarrow> RpcResponse http_outcome \<Rightarrow> js_error + 'a Meta_scheme)
   \<Rightarrow> ('a Meta_scheme \<Rightarrow> int \<Rightarrow> js_error + js_string)
   \<Rightarrow> ('a Meta_scheme) component \<Rightarrow> event \<Rightarrow> ('a Meta_scheme) component" where
  "handle getMeta fmt st ev =
     (case ev of
        TypeTokenInput v \<Rightarrow> st\<lparr>tokenInput := trim v\<rparr>
      | ClickAddToken \<Rightarrow> addToken_begin st
      | MetaArrives k r1 r2 \<Rightarrow>
          if k < length (addsInFlight st) then
            addToken_end (getMeta (addsInFlight st ! k) r1 r2)
              (st\<lparr>addsInFlight := remove_nth k (addsInFlight st)\<rparr>)
          else st
      | ClickRemove addr \<Rightarrow> removeToken addr st
      | SelectTab addr \<Rightarrow> st\<lparr>activeAddr := Some addr\<rparr>
      | TypeWallet v \<Rightarrow>
          (case activeAddr st of
             None \<Rightarrow> st
           | Some a \<Rightarrow>
               if a = [] then st
               else
                 case find_token (tokens st) a of
                   None \<Rightarrow> st
                 | Some t \<Rightarrow> st\<lparr>walletByToken := (walletByToken st)(address t \<mapsto> trim v)\<rparr>)
      | RunKeepActiveValid \<Rightarrow> keepActiveValid st
      | CallRefresh now \<Rightarrow> refresh_begin now st
      | BalanceArrives k now reply \<Rightarrow>
          if k < length (refreshesInFlight st) then
            refresh_end fmt now (refreshesInFlight st ! k) reply
              (st\<lparr>refreshesInFlight := remove_nth k (refreshesInFlight st)\<rparr>)
          else st)"

text \<open>
  The page. The registration button is rendered with \<^verbatim>\<open>disabled={loadingToken}\<close>, so a
  click on it while a registration is loading does nothing. There is one tab for each
  registered token, \<^verbatim>\<open>onClick={() => setActiveAddr(t.address)}\<close>, and the delete button
  belongs to the panel of the active token, \<^verbatim>\<open>onClick={() => removeToken(t.address)}\<close>.
  The two effects that load the token list from \<open>localStorage\<close> and save it there are not
  part of the model: a component starts with the empty list of \<open>useState\<close>.
\<close>

definition active_token :: "('a Meta_scheme) component \<Rightarrow> 'a Meta_scheme option" where
  "active_token st =
     (case activeAddr st of
        None \<Rightarrow> None
      | Some a \<Rightarrow> if a = [] then None else find_token (tokens st) a)"

definition ui_step ::
  "(js_string \<Rightarrow> RpcResponse http_outcome \<Rightarrow> RpcResponse http_outcome \<Rightarrow> js_error + 'a Meta_scheme)
   \<Rightarrow> ('a Meta_scheme \<Rightarrow> int \<Rightarrow> js_error + js_string)
   \<Rightarrow> ('a Meta_scheme) component \<Rightarrow> event \<Rightarrow> ('a Meta_scheme) component" where
  "ui_step getMeta fmt st ev =
     (case ev of
        ClickAddToken \<Rightarrow> if loadingToken st then st else handle getMeta fmt st ev
      | ClickRemove addr \<Rightarrow>
          (case active_token st of
             None \<Rightarrow> st
           | Some t \<Rightarrow> if address t = addr then handle getMeta fmt st ev else st)
      | SelectTab addr \<Rightarrow>
          if addr \<in> set (map address (tokens st)) then handle getMeta fmt st ev else st
      | _ \<Rightarrow> handle getMeta fmt st ev)"

text \<open>The two components.\<close>

definition token_fmt :: "engine \<Rightarrow> TokenMeta \<Rightarrow> int \<Rightarrow> js_error + js_string" where
  "token_fmt eng meta raw = formatUnits eng raw (decimals meta)"

definition nft_fmt :: "NftMeta \<Rightarrow> int \<Rightarrow> js_error + js_string" where
  "nft_fmt meta raw = Inr (toString raw)"

definition nft_getMeta ::
  "engine \<Rightarrow> js_string \<Rightarrow> RpcResponse http_outcome \<Rightarrow> RpcResponse http_outcome
   \<Rightarrow> js_error + NftMeta" where
  "nft_getMeta eng addr nameReply symbolReply = Inr (getNftMeta eng addr nameReply symbolReply)"

definition TokenBalances :: "engine \<Rightarrow> event list \<Rightarrow> TokenMeta component" where
  "TokenBalances eng evs = foldl (ui_step (getTokenMeta eng) (token_fmt eng)) initial evs"

definition NFTBalances :: "engine \<Rightarrow> event list \<Rightarrow> NftMeta component" where
  "NFTBalances eng evs = foldl (ui_step (nft_getMeta eng) nft_fmt) initial evs"

text \<open>The same with the bare handlers: every sequence of calls of the operations.\<close>

definition TokenBalances_calls :: "engine \<Rightarrow> event list \<Rightarrow> TokenMeta component" where
  "TokenBalances_calls eng evs = foldl (handle (getTokenMeta eng) (token_fmt eng)) initial evs"

definition NFTBalances_calls :: "engine \<Rightarrow> event list \<Rightarrow> NftMeta component" where
  "NFTBalances_calls eng evs = foldl (handle (nft_getMeta eng) nft_fmt) initial evs"

text \<open>The registry has no two entries with the same lowercase address.\<close>

definition registry_ok :: "('a Meta_scheme) list \<Rightarrow> bool" where
  "registry_ok ts = distinct (map (\<lambda>t. toLowerCase (address t)) ts)"

text \<open>A metadata fetch returns an entry for the address it was asked about.\<close>

definition getMeta_ok ::
  "(js_string \<Rightarrow> RpcResponse http_outcome \<Rightarrow> RpcResponse http_outcome \<Rightarrow> js_error + 'a Meta_scheme) \<Rightarrow> bool" where
  "getMeta_ok getMeta = (\<forall>a r1 r2 m. getMeta a r1 r2 = Inr m \<longrightarrow> address m = a)"

text \<open>What holds of the registrations behind the disabled button: the registry is
  distinct, at most one registration waits for its metadata, the button is disabled while
  one does, and the address it holds is not in the registry.\<close>

definition registration_inv :: "('a Meta_scheme) component \<Rightarrow> bool" where
  "registration_inv st =
     (registry_ok (tokens st)
      \<and> length (addsInFlight st) \<le> 1
      \<and> (addsInFlight st = [] \<or> loadingToken st)
      \<and> list_all (\<lambda>a. find_token (tokens st) a = None) (addsInFlight st))"

section \<open>Properties\<close>

subsection \<open>Numbers\<close>

lemma hex_digit_iff:
  "isRadixDigit 16 c \<longleftrightarrow> (48 \<le> c \<and> c \<le> 57) \<or> (97 \<le> c \<and> c \<le> 102) \<or> (65 \<le> c \<and> c \<le> 70)"
  by (auto simp: isRadixDigit_def digitValue_def)

lemma hex_digit_not_ws: "isRadixDigit 16 c \<Longrightarrow> \<not> isWhiteSpace c"
  by (auto simp: hex_digit_iff isWhiteSpace_def)

lemma hex_digit_lt16: "isRadixDigit 16 c \<Longrightarrow> digitOf c < 16"
  by (auto simp: isRadixDigit_def digitOf_def split: option.splits)

lemma to_double_small: "\<bar>n\<bar> < 2 ^ 53 \<Longrightarrow> to_double n = Finite n"
  by (simp add: to_double_def Let_def bitlen_le_iff_power)

lemma to_double_large:
  assumes "2 ^ 53 \<le> n"
  shows "to_double n = PosInfinity \<or> (\<exists>m. 2 ^ 53 \<le> m \<and> to_double n = Finite m)"
proof -
  define e where "e = bitlen n"
  have "(0::int) < 2 ^ 53" by simp
  then have npos: "0 < n" using assms by linarith
  have e54: "54 \<le> e"
    using assms by (simp add: e_def bitlen_ge_iff_power)
  define sh where "sh = nat (e - 53)"
  have lo: "2 ^ nat (e - 1) \<le> n" using bitlen_bounds[OF npos] by (simp add: e_def)
  have split: "nat (e - 1) = 52 + sh" using e54 by (simp add: sh_def)
  have q: "2 ^ 52 \<le> n div 2 ^ sh"
  proof -
    have "(2::int) ^ 52 * 2 ^ sh \<le> n" using lo by (simp add: split power_add)
    then show ?thesis
      by (metis div_mult_self_is_m mult.commute zdiv_mono1 zero_less_numeral zero_less_power nonzero_mult_div_cancel_right power_not_zero zero_neq_numeral)
  qed
  define q' where "q' = (if 2 ^ (sh - 1) < n mod 2 ^ sh \<or> (n mod 2 ^ sh = 2 ^ (sh - 1) \<and> odd (n div 2 ^ sh)) then n div 2 ^ sh + 1 else n div 2 ^ sh)"
  have q'ge: "2 ^ 52 \<le> q'" using q by (simp add: q'_def)
  have "(2::int) ^ 53 \<le> 2 ^ 52 * 2 ^ sh"
  proof -
    have "1 \<le> sh" using e54 by (simp add: sh_def)
    then have "(2::int) ^ 1 \<le> 2 ^ sh" by (intro power_increasing) auto
    then show ?thesis by simp
  qed
  also have "\<dots> \<le> q' * 2 ^ sh" using q'ge by (simp add: mult_right_mono)
  finally have v: "2 ^ 53 \<le> q' * 2 ^ sh" .
  have ne: "\<not> e \<le> 53" using e54 by simp
  have sg: "sgn n = 1" using npos by simp
  have abs: "\<bar>n\<bar> = n" using npos by simp
  show ?thesis
    unfolding to_double_def Let_def abs e_def[symmetric] sh_def[symmetric]
    using ne v npos sg by (auto simp: q'_def)
qed

subsection \<open>The decoder on hex payloads\<close>

lemma ToUint16_small: "n < 65536 \<Longrightarrow> ToUint16 (Finite (int n)) = n"
  by (simp add: ToUint16_def)

lemma parseInt16_pair:
  assumes "isRadixDigit 16 a" "isRadixDigit 16 b"
  shows "parseInt16 [a, b] = Finite (int (16 * digitOf a + digitOf b))"
proof -
  have ws: "\<not> isWhiteSpace a" using assms(1) by (rule hex_digit_not_ws)
  have a: "a \<noteq> 43" "a \<noteq> 45" using assms(1) by (auto simp: hex_digit_iff)
  have b: "b \<noteq> 120" "b \<noteq> 88" using assms(2) by (auto simp: hex_digit_iff)
  have small: "\<bar>int (16 * digitOf a + digitOf b)\<bar> < 2 ^ 53"
    using hex_digit_lt16[OF assms(1)] hex_digit_lt16[OF assms(2)] by simp
  have "parseInt16 [a, b] = to_double (int (16 * digitOf a + digitOf b))"
    using ws a b assms
    by (simp add: parseInt16_def trimStart_def js_def radixValue_def Let_def mult.commute)
  then show ?thesis using to_double_small[OF small] by simp
qed

lemma parseInt16_single:
  assumes "isRadixDigit 16 a"
  shows "parseInt16 [a] = Finite (int (digitOf a))"
proof -
  have ws: "\<not> isWhiteSpace a" using assms(1) by (rule hex_digit_not_ws)
  have a: "a \<noteq> 43" "a \<noteq> 45" using assms(1) by (auto simp: hex_digit_iff)
  have small: "\<bar>int (digitOf a)\<bar> < 2 ^ 53"
    using hex_digit_lt16[OF assms(1)] by simp
  have "parseInt16 [a] = to_double (int (digitOf a))"
    using ws a assms
    by (simp add: parseInt16_def trimStart_def js_def radixValue_def Let_def)
  then show ?thesis using to_double_small[OF small] by simp
qed

lemma dynamic_loop_hex: "isHex s \<Longrightarrow> fromCharCode (dynamic_loop s) = hexBytes s"
proof (induction s rule: hexBytes.induct)
  case 1
  then show ?case by (simp add: fromCharCode_def)
next
  case (2 a)
  then show ?case
    using hex_digit_lt16[of a]
    by (simp add: fromCharCode_def isHex_def parseInt16_single ToUint16_small)
next
  case (3 a b rest)
  then show ?case
    using hex_digit_lt16[of a] hex_digit_lt16[of b]
    by (simp add: fromCharCode_def isHex_def parseInt16_pair ToUint16_small del: of_nat_add of_nat_mult)
qed

lemma fixed_loop_hex:
  "isHex s \<Longrightarrow> even (length s) \<Longrightarrow> fromCharCode (fixed_loop s) = takeWhile (\<lambda>b. b \<noteq> 0) (hexBytes s)"
proof (induction s rule: hexBytes.induct)
  case 1
  then show ?case by (simp add: fromCharCode_def)
next
  case (2 a)
  then show ?case by simp
next
  case (3 a b rest)
  then show ?case
    using hex_digit_lt16[of a] hex_digit_lt16[of b]
    by (simp add: fromCharCode_def isHex_def parseInt16_pair ToUint16_small Let_def del: of_nat_add of_nat_mult)
qed

lemma trimEnd_0x: "trimEnd (js ''0x'' @ w) = js ''0x'' @ trimEnd w"
  by (simp add: trimEnd_def js_def dropWhile_append isWhiteSpace_def)

lemma StringToBigInt_0x: "StringToBigInt (js ''0x'' @ w) = digitsValue 16 (trimEnd w)"
proof -
  have "trim (js ''0x'' @ w) = js ''0x'' @ trimEnd w"
    unfolding trim_def using trimEnd_0x by (simp add: trimStart_def js_def isWhiteSpace_def)
  then show ?thesis by (simp add: StringToBigInt_def js_def)
qed

lemma trimEnd_hex: "isHex w \<Longrightarrow> trimEnd w = w"
proof -
  assume h: "isHex w"
  have "rev w = [] \<or> \<not> isWhiteSpace (hd (rev w))"
  proof (cases "rev w")
    case Nil
    then show ?thesis by simp
  next
    case (Cons c cs)
    then have "c \<in> set w" by (metis list.set_intros(1) set_rev)
    then have "isRadixDigit 16 c" using h by (simp add: isHex_def list_all_iff)
    then show ?thesis using Cons by (simp add: hex_digit_not_ws)
  qed
  then have "dropWhile isWhiteSpace (rev w) = rev w"
    by (simp add: dropWhile_eq_self_iff)
  then show ?thesis by (simp add: trimEnd_def)
qed

lemma BigInt_0x_hex: "isHex w \<Longrightarrow> w \<noteq> [] \<Longrightarrow> BigInt (js ''0x'' @ w) = Inr (int (radixValue 16 w))"
  by (simp add: BigInt_def StringToBigInt_0x trimEnd_hex digitsValue_def isHex_def)

lemma mult2_large:
  assumes "x = PosInfinity \<or> (\<exists>m. 2 ^ 53 \<le> m \<and> x = Finite m)"
  shows "js_mult x (Finite 2) = PosInfinity \<or> (\<exists>m. 2 ^ 53 \<le> m \<and> js_mult x (Finite 2) = Finite m)"
proof (cases "x = PosInfinity")
  case True
  then show ?thesis by (simp add: js_sign_def)
next
  case False
  then obtain m where m: "2 ^ 53 \<le> m" "x = Finite m" using assms by blast
  then have "(2::int) ^ 53 \<le> m * 2" by simp
  then show ?thesis using to_double_large[of "m * 2"] m(2) by simp
qed

lemma add128_large:
  assumes "x = PosInfinity \<or> (\<exists>m. 2 ^ 53 \<le> m \<and> x = Finite m)"
  shows "js_add (Finite 128) x = PosInfinity \<or> (\<exists>m. 2 ^ 53 \<le> m \<and> js_add (Finite 128) x = Finite m)"
proof (cases "x = PosInfinity")
  case True
  then show ?thesis by simp
next
  case False
  then obtain m where m: "2 ^ 53 \<le> m" "x = Finite m" using assms by blast
  then have "(2::int) ^ 53 \<le> 128 + m" by simp
  then show ?thesis using to_double_large[of "128 + m"] m(2) by simp
qed

lemma slice_end_large:
  assumes "2 ^ 53 \<le> 128 + 2 * int L"
  shows "js_add (Finite 128) (js_mult (Number (int L)) (Finite 2)) = PosInfinity
       \<or> (\<exists>m. 2 ^ 53 \<le> m \<and> js_add (Finite 128) (js_mult (Number (int L)) (Finite 2)) = Finite m)"
proof (cases "2 ^ 53 \<le> int L")
  case True
  show ?thesis
    unfolding Number_def
    by (intro add128_large mult2_large to_double_large True)
next
  case False
  then have L: "to_double (int L) = Finite (int L)" by (intro to_double_small) simp
  show ?thesis
  proof (cases "2 ^ 53 \<le> int L * 2")
    case True
    have "js_mult (Number (int L)) (Finite 2) = to_double (int L * 2)"
      by (simp add: Number_def L)
    then show ?thesis using add128_large[OF to_double_large[OF True]] by simp
  next
    case False
    then have "to_double (int L * 2) = Finite (int L * 2)" by (intro to_double_small) simp
    then have "js_add (Finite 128) (js_mult (Number (int L)) (Finite 2)) = to_double (128 + int L * 2)"
      by (simp add: Number_def L)
    moreover have "(2::int) ^ 53 \<le> 128 + int L * 2" using assms by simp
    ultimately show ?thesis using to_double_large[of "128 + int L * 2"] by simp
  qed
qed

lemma slice_end_small:
  assumes "128 + 2 * int L < 2 ^ 53"
  shows "js_add (Finite 128) (js_mult (Number (int L)) (Finite 2)) = Finite (128 + 2 * int L)"
proof -
  have 1: "to_double (int L) = Finite (int L)" using assms by (intro to_double_small) simp
  have 2: "to_double (int L * 2) = Finite (int L * 2)" using assms by (intro to_double_small) simp
  have 3: "to_double (128 + int L * 2) = Finite (128 + int L * 2)" using assms by (intro to_double_small) simp
  show ?thesis by (simp add: Number_def 1 2 3)
qed

lemma slice_payload:
  assumes "length data < 2 ^ 53"
  shows "slice_num data 128 (js_add (Finite 128) (js_mult (Number (int L)) (Finite 2)))
         = take (2 * L) (drop 128 data)"
proof (cases "128 + 2 * int L < 2 ^ 53")
  case True
  have "nat (128 + 2 * int L) = 128 + 2 * L" by simp
  then show ?thesis
    by (simp add: slice_end_small[OF True] slice_num_def slice_index_def slice_def min_def del: of_nat_add of_nat_mult)
next
  case False
  then have ge: "2 ^ 53 \<le> 128 + 2 * int L" by simp
  have len: "int (length data) < 2 ^ 53" using assms by (metis of_nat_less_iff of_nat_numeral of_nat_power)
  have "slice_index (length data) (js_add (Finite 128) (js_mult (Number (int L)) (Finite 2))) = length data"
    using slice_end_large[OF ge] len by (auto simp: slice_index_def)
  moreover have "length data \<le> 128 + 2 * L" using ge len by linarith
  ultimately show ?thesis by (simp add: slice_num_def slice_def)
qed

lemma bytesHex_of_payload:
  "length data < 2 ^ 53 \<Longrightarrow> bytesHex_of data (Number (int L)) = take (2 * L) (drop 128 data)"
  using slice_payload[of data L] by (simp add: bytesHex_of_def)

lemma length_dynamic_loop: "length (dynamic_loop s) = length (hexBytes s)"
  by (induction s rule: hexBytes.induct) simp_all

lemmas decoder_eval =
  js_def tryDecodeStringFromAbi_def tryDecodeStringFromAbi_nft_def startsWith_def slice_from_def slice_def
  catch_null_def decode_body_def decode_body_nft_def bytesHex_of_def fromCharCode_spread_def
  sample_engine_def or_null_def fromCharCode_def ToUint16_def parseInt16_def
  trimStart_def isWhiteSpace_def isRadixDigit_def digitValue_def radixValue_def digitOf_def BigInt_def
  StringToBigInt_def trim_def trimEnd_def digitsValue_def slice_num_def slice_index_def Let_def

lemma hexBytes_lt256: "isHex s \<Longrightarrow> list_all (\<lambda>c. c < 256) (hexBytes s)"
proof (induction s rule: hexBytes.induct)
  case (2 a)
  then show ?case using hex_digit_lt16[of a] by (simp add: isHex_def)
next
  case (3 a b rest)
  then show ?case using hex_digit_lt16[of a] hex_digit_lt16[of b] by (simp add: isHex_def)
qed simp

lemma length_hexBytes: "length (hexBytes s) = (length s + 1) div 2"
  by (induction s rule: hexBytes.induct) auto

lemma startsWith_0x: "startsWith (js ''0x'' @ data) (js ''0x'')"
  by (simp add: startsWith_def js_def)

lemma tryDecode_0x: "tryDecodeStringFromAbi eng (js ''0x'' @ data) = catch_null (decode_body eng data)"
  using startsWith_0x[of data] by (simp add: tryDecodeStringFromAbi_def slice_from_def js_def)

lemma tryDecode_nft_0x: "tryDecodeStringFromAbi_nft eng (js ''0x'' @ data) = catch_null (decode_body_nft eng data)"
  using startsWith_0x[of data] by (simp add: tryDecodeStringFromAbi_nft_def slice_from_def js_def)

lemma decode_fixed_hex:
  assumes "isHex data" "length data = 64"
  shows "decode_body eng data = Inr (bytes32_string data)"
  using assms fixed_loop_hex[of data]
  by (simp add: decode_body_def bytes32_string_def or_null_def)

lemma isHex_slice: "isHex data \<Longrightarrow> isHex (slice data a b)"
  by (auto simp: isHex_def slice_def list_all_iff dest: in_set_takeD in_set_dropD)

lemma isHex_take_drop: "isHex data \<Longrightarrow> isHex (take n (drop k data))"
  by (auto simp: isHex_def list_all_iff dest: in_set_takeD in_set_dropD)

lemma decode_dynamic_hex:
  assumes "isHex data" "64 < length data" "length data < 2 ^ 53"
  shows "decode_body eng data
         = (if maxArguments eng
                 < length (hexBytes (take (2 * radixValue 16 (slice data 64 128)) (drop 128 data)))
            then Inl RangeError
            else Inr (Some (hexBytes (take (2 * radixValue 16 (slice data 64 128)) (drop 128 data)))))"
proof -
  have w1: "slice data 0 64 \<noteq> []" and w2: "slice data 64 128 \<noteq> []"
    using assms(2) by (auto simp: slice_def)
  have b1: "BigInt (js ''0x'' @ slice data 0 64) = Inr (int (radixValue 16 (slice data 0 64)))"
    by (rule BigInt_0x_hex[OF isHex_slice[OF assms(1)] w1])
  have b2: "BigInt (js ''0x'' @ slice data 64 128) = Inr (int (radixValue 16 (slice data 64 128)))"
    by (rule BigInt_0x_hex[OF isHex_slice[OF assms(1)] w2])
  show ?thesis
    using assms(2)
    by (simp add: decode_body_def b1 b2 Let_def bytesHex_of_payload[OF assms(3)] fromCharCode_spread_def
        length_dynamic_loop dynamic_loop_hex[OF isHex_take_drop[OF assms(1)]] del: of_nat_add of_nat_mult)
qed

lemma decode_dynamic_hex_nft:
  assumes "isHex data" "64 < length data" "length data < 2 ^ 53"
  shows "decode_body_nft eng data
         = (if maxArguments eng
                 < length (hexBytes (take (2 * radixValue 16 (slice data 64 128)) (drop 128 data)))
            then Inl RangeError
            else Inr (Some (hexBytes (take (2 * radixValue 16 (slice data 64 128)) (drop 128 data)))))"
proof -
  have w2: "slice data 64 128 \<noteq> []"
    using assms(2) by (auto simp: slice_def)
  have b2: "BigInt (js ''0x'' @ slice data 64 128) = Inr (int (radixValue 16 (slice data 64 128)))"
    by (rule BigInt_0x_hex[OF isHex_slice[OF assms(1)] w2])
  show ?thesis
    using assms(2)
    by (simp add: decode_body_nft_def b2 Let_def bytesHex_of_payload[OF assms(3)] fromCharCode_spread_def
        length_dynamic_loop dynamic_loop_hex[OF isHex_take_drop[OF assms(1)]] del: of_nat_add of_nat_mult)
qed

text \<open>
  C5: for every payload of exactly 64 hexadecimal digits the decoder follows the fixed
  \<open>bytes32\<close> convention: the bytes are read from the left up to the first zero byte or the
  end of the buffer, each byte becomes the character with that code (below 256), and an
  empty run gives \<open>null\<close>. ASCII \<open>USDC\<close> padded with zeros to 32 bytes decodes to \<open>USDC\<close>.
\<close>

theorem fixed_bytes32_decode:
  "(isHex data \<and> length data = 64 \<longrightarrow>
      tryDecodeStringFromAbi eng (js ''0x'' @ data) = Inr (bytes32_string data)
      \<and> list_all (\<lambda>c. c < 256) (hexBytes data))
   \<and> tryDecodeStringFromAbi eng (js ''0x5553444300000000000000000000000000000000000000000000000000000000'')
       = Inr (Some (js ''USDC''))"
proof (intro conjI impI)
  assume h: "isHex data \<and> length data = 64"
  then show "tryDecodeStringFromAbi eng (js ''0x'' @ data) = Inr (bytes32_string data)"
    by (simp add: tryDecode_0x decode_fixed_hex catch_null_def)
  from h show "list_all (\<lambda>c. c < 256) (hexBytes data)" by (simp add: hexBytes_lt256)
next
  show "tryDecodeStringFromAbi eng (js ''0x5553444300000000000000000000000000000000000000000000000000000000'')
       = Inr (Some (js ''USDC''))"
    by (simp add: decoder_eval to_double_small)
qed

theorem fixed_bytes32_decode_witness:
  "isHex (js ''0000000000000000000000000000000000000000000000000000000000000000'')
   \<and> length (js ''0000000000000000000000000000000000000000000000000000000000000000'') = 64
   \<and> tryDecodeStringFromAbi sample_engine (js ''0x'' @ js ''0000000000000000000000000000000000000000000000000000000000000000'') = Inr None
   \<and> isHex (js ''4d4b5200000000000000000000000000000000000000000000000000000000ff'')
   \<and> length (js ''4d4b5200000000000000000000000000000000000000000000000000000000ff'') = 64
   \<and> tryDecodeStringFromAbi sample_engine (js ''0x'' @ js ''4d4b5200000000000000000000000000000000000000000000000000000000ff'')
       = Inr (Some (js ''MKR''))"
proof -
  have a: "isHex (js ''0000000000000000000000000000000000000000000000000000000000000000'')
     \<and> length (js ''0000000000000000000000000000000000000000000000000000000000000000'') = 64"
    by (simp add: isHex_def js_def isRadixDigit_def digitValue_def)
  have b: "isHex (js ''4d4b5200000000000000000000000000000000000000000000000000000000ff'')
     \<and> length (js ''4d4b5200000000000000000000000000000000000000000000000000000000ff'') = 64"
    by (simp add: isHex_def js_def isRadixDigit_def digitValue_def)
  have c: "bytes32_string (js ''0000000000000000000000000000000000000000000000000000000000000000'') = None"
    by (simp add: bytes32_string_def js_def digitOf_def digitValue_def)
  have d: "bytes32_string (js ''4d4b5200000000000000000000000000000000000000000000000000000000ff'') = Some (js ''MKR'')"
    by (simp add: bytes32_string_def js_def digitOf_def digitValue_def)
  show ?thesis
    using a b c d
      fixed_bytes32_decode[of "js ''0000000000000000000000000000000000000000000000000000000000000000''"]
      fixed_bytes32_decode[of "js ''4d4b5200000000000000000000000000000000000000000000000000000000ff''"]
    by simp
qed

lemma isHex_eval: "isHex (js s) = list_all (\<lambda>c. isRadixDigit 16 (of_char c)) s"
  by (simp add: isHex_def js_def list_all_iff)


lemmas hex_eval = isHex_def js_def isRadixDigit_def digitValue_def digitOf_def radixValue_def slice_def


lemma long_payload_range_error:
  "isHex (js ''0000000000000000000000000000000000000000000000000000000000000020'' @ js ''000000000000000000000000000000000000000000000000000000000001fbd0'' @ replicate 260000 48)
   \<and> radixValue 16 (slice (js ''0000000000000000000000000000000000000000000000000000000000000020'' @ js ''000000000000000000000000000000000000000000000000000000000001fbd0'' @ replicate 260000 48) 64 128) = 130000
   \<and> length (js ''0000000000000000000000000000000000000000000000000000000000000020'' @ js ''000000000000000000000000000000000000000000000000000000000001fbd0'' @ replicate 260000 48) = 128 + 2 * 130000
   \<and> decode_body sample_engine (js ''0000000000000000000000000000000000000000000000000000000000000020'' @ js ''000000000000000000000000000000000000000000000000000000000001fbd0'' @ replicate 260000 48) = Inl RangeError
   \<and> decode_body_nft sample_engine (js ''0000000000000000000000000000000000000000000000000000000000000020'' @ js ''000000000000000000000000000000000000000000000000000000000001fbd0'' @ replicate 260000 48) = Inl RangeError"
proof -
  let ?D = "js ''0000000000000000000000000000000000000000000000000000000000000020'' @ js ''000000000000000000000000000000000000000000000000000000000001fbd0'' @ replicate 260000 48"
  have hx: "isHex ?D" by (simp add: hex_eval list_all_iff)
  have ln: "length ?D = 128 + 2 * 130000" by (simp add: js_def)
  have sl: "slice ?D 64 128 = js ''000000000000000000000000000000000000000000000000000000000001fbd0''" by (simp add: slice_def js_def)
  have rv: "radixValue 16 (js ''000000000000000000000000000000000000000000000000000000000001fbd0'') = 130000" by (simp add: hex_eval)
  have dr: "take (2 * 130000) (drop 128 ?D) = replicate 260000 48" by (simp add: js_def)
  have many: "maxArguments sample_engine < length (hexBytes (replicate 260000 48))"
    by (simp add: length_hexBytes sample_engine_def)
  have g: "64 < length ?D" "length ?D < 2 ^ 53" using ln by simp_all
  have t: "decode_body sample_engine ?D = Inl RangeError"
    using many by (simp only: decode_dynamic_hex[OF hx g] sl rv dr) simp
  have n: "decode_body_nft sample_engine ?D = Inl RangeError"
    using many by (simp only: decode_dynamic_hex_nft[OF hx g] sl rv dr) simp
  show ?thesis using hx ln sl rv t n by simp
qed


text \<open>
  C4 as stated fails: a hex payload that announces 130000 bytes and holds them decodes to
  \<open>null\<close> on an engine that accepts 65536 arguments, since \<open>String.fromCharCode(...arr)\<close>
  throws there and the \<open>catch\<close> returns \<open>null\<close>.
\<close>

theorem long_payload_decodes_to_null:
  "isHex (js ''0000000000000000000000000000000000000000000000000000000000000020'' @ js ''000000000000000000000000000000000000000000000000000000000001fbd0'' @ replicate 260000 48)
   \<and> radixValue 16 (slice (js ''0000000000000000000000000000000000000000000000000000000000000020'' @ js ''000000000000000000000000000000000000000000000000000000000001fbd0'' @ replicate 260000 48) 64 128) = 130000
   \<and> length (js ''0000000000000000000000000000000000000000000000000000000000000020'' @ js ''000000000000000000000000000000000000000000000000000000000001fbd0'' @ replicate 260000 48) = 128 + 2 * 130000
   \<and> tryDecodeStringFromAbi sample_engine (js ''0x'' @ js ''0000000000000000000000000000000000000000000000000000000000000020'' @ js ''000000000000000000000000000000000000000000000000000000000001fbd0'' @ replicate 260000 48)
       = Inr None
   \<and> tryDecodeStringFromAbi_nft sample_engine (js ''0x'' @ js ''0000000000000000000000000000000000000000000000000000000000000020'' @ js ''000000000000000000000000000000000000000000000000000000000001fbd0'' @ replicate 260000 48)
       = Inr None"
  using long_payload_range_error by (simp add: tryDecode_0x tryDecode_nft_0x catch_null_def)

text \<open>
  C4, amended: for every payload of more than 64 hexadecimal digits (and of a length a
  JavaScript string can have, below \<open>2 ^ 53\<close>) both decoders read the length \<open>L\<close> from the
  digits at positions 64 to 128 and take the \<open>2 * L\<close> digits that follow position 128, as
  far as they are present. When these are no more bytes than the engine accepts as
  arguments of one call, the result is the string of these bytes, exactly \<open>L\<close> bytes when
  the payload holds them; when they are more, the result is \<open>null\<close>. The first word does
  not enter the result: two payloads that differ in it only decode alike. Offset 32,
  length 3 and \<open>ABC\<close> padded to 32 bytes decode to \<open>ABC\<close>.
\<close>

theorem dynamic_string_decode:
  "(isHex data \<and> 64 < length data \<and> length data < 2 ^ 53
      \<and> length (hexBytes (take (2 * radixValue 16 (slice data 64 128)) (drop 128 data)))
          \<le> maxArguments eng \<longrightarrow>
      tryDecodeStringFromAbi eng (js ''0x'' @ data)
        = Inr (Some (hexBytes (take (2 * radixValue 16 (slice data 64 128)) (drop 128 data))))
      \<and> tryDecodeStringFromAbi_nft eng (js ''0x'' @ data)
        = Inr (Some (hexBytes (take (2 * radixValue 16 (slice data 64 128)) (drop 128 data))))
      \<and> (128 + 2 * radixValue 16 (slice data 64 128) \<le> length data \<longrightarrow>
           length (hexBytes (take (2 * radixValue 16 (slice data 64 128)) (drop 128 data)))
             = radixValue 16 (slice data 64 128)))
   \<and> (isHex data \<and> 64 < length data \<and> length data < 2 ^ 53
      \<and> maxArguments eng
          < length (hexBytes (take (2 * radixValue 16 (slice data 64 128)) (drop 128 data))) \<longrightarrow>
      tryDecodeStringFromAbi eng (js ''0x'' @ data) = Inr None
      \<and> tryDecodeStringFromAbi_nft eng (js ''0x'' @ data) = Inr None)
   \<and> (isHex w \<and> isHex w' \<and> isHex rest \<and> length w = 64 \<and> length w' = 64 \<and> rest \<noteq> []
        \<and> length rest < 2 ^ 52 \<longrightarrow>
        tryDecodeStringFromAbi eng (js ''0x'' @ w @ rest) = tryDecodeStringFromAbi eng (js ''0x'' @ w' @ rest))
   \<and> (3 \<le> maxArguments eng \<longrightarrow>
        tryDecodeStringFromAbi eng (js ''0x000000000000000000000000000000000000000000000000000000000000002000000000000000000000000000000000000000000000000000000000000000034142430000000000000000000000000000000000000000000000000000000000'') = Inr (Some (js ''ABC''))
        \<and> tryDecodeStringFromAbi_nft eng (js ''0x000000000000000000000000000000000000000000000000000000000000002000000000000000000000000000000000000000000000000000000000000000034142430000000000000000000000000000000000000000000000000000000000'') = Inr (Some (js ''ABC'')))"
proof (intro conjI impI)
  assume h: "isHex data \<and> 64 < length data \<and> length data < 2 ^ 53
      \<and> length (hexBytes (take (2 * radixValue 16 (slice data 64 128)) (drop 128 data)))
          \<le> maxArguments eng"
  then show "tryDecodeStringFromAbi eng (js ''0x'' @ data)
        = Inr (Some (hexBytes (take (2 * radixValue 16 (slice data 64 128)) (drop 128 data))))"
    by (simp add: tryDecode_0x decode_dynamic_hex catch_null_def)
  from h show "tryDecodeStringFromAbi_nft eng (js ''0x'' @ data)
        = Inr (Some (hexBytes (take (2 * radixValue 16 (slice data 64 128)) (drop 128 data))))"
    by (simp add: tryDecode_nft_0x decode_dynamic_hex_nft catch_null_def)
  assume "128 + 2 * radixValue 16 (slice data 64 128) \<le> length data"
  then have "length (take (2 * radixValue 16 (slice data 64 128)) (drop 128 data))
             = 2 * radixValue 16 (slice data 64 128)"
    by simp
  then show "length (hexBytes (take (2 * radixValue 16 (slice data 64 128)) (drop 128 data)))
             = radixValue 16 (slice data 64 128)"
    by (simp only: length_hexBytes)
next
  assume h: "isHex data \<and> 64 < length data \<and> length data < 2 ^ 53
      \<and> maxArguments eng
          < length (hexBytes (take (2 * radixValue 16 (slice data 64 128)) (drop 128 data)))"
  then show "tryDecodeStringFromAbi eng (js ''0x'' @ data) = Inr None"
    by (simp add: tryDecode_0x decode_dynamic_hex catch_null_def)
  from h show "tryDecodeStringFromAbi_nft eng (js ''0x'' @ data) = Inr None"
    by (simp add: tryDecode_nft_0x decode_dynamic_hex_nft catch_null_def)
next
  assume h: "isHex w \<and> isHex w' \<and> isHex rest \<and> length w = 64 \<and> length w' = 64 \<and> rest \<noteq> []
        \<and> length rest < 2 ^ 52"
  have hx: "isHex (w @ rest)" "isHex (w' @ rest)" using h by (simp_all add: isHex_def)
  have ln: "64 < length (w @ rest)" "64 < length (w' @ rest)" using h by simp_all
  have lt: "length (w @ rest) < 2 ^ 53" "length (w' @ rest) < 2 ^ 53" using h by simp_all
  have sl: "slice (w @ rest) 64 128 = slice (w' @ rest) 64 128" "drop 128 (w @ rest) = drop 128 (w' @ rest)"
    using h by (simp_all add: slice_def)
  show "tryDecodeStringFromAbi eng (js ''0x'' @ w @ rest) = tryDecodeStringFromAbi eng (js ''0x'' @ w' @ rest)"
    unfolding tryDecode_0x decode_dynamic_hex[OF hx(1) ln(1) lt(1)]
        decode_dynamic_hex[OF hx(2) ln(2) lt(2)] sl ..
next
  assume "3 \<le> maxArguments eng"
  then show "tryDecodeStringFromAbi eng (js ''0x000000000000000000000000000000000000000000000000000000000000002000000000000000000000000000000000000000000000000000000000000000034142430000000000000000000000000000000000000000000000000000000000'') = Inr (Some (js ''ABC''))"
    by (simp add: decoder_eval to_double_small Number_def)
next
  assume "3 \<le> maxArguments eng"
  then show "tryDecodeStringFromAbi_nft eng (js ''0x000000000000000000000000000000000000000000000000000000000000002000000000000000000000000000000000000000000000000000000000000000034142430000000000000000000000000000000000000000000000000000000000'') = Inr (Some (js ''ABC''))"
    by (simp add: decoder_eval to_double_small Number_def)
qed

theorem dynamic_string_decode_witness:
  "isHex (js ''000000000000000000000000000000000000000000000000000000000000002000000000000000000000000000000000000000000000000000000000000000034142430000000000000000000000000000000000000000000000000000000000'')
   \<and> 64 < length (js ''000000000000000000000000000000000000000000000000000000000000002000000000000000000000000000000000000000000000000000000000000000034142430000000000000000000000000000000000000000000000000000000000'')
   \<and> length (js ''000000000000000000000000000000000000000000000000000000000000002000000000000000000000000000000000000000000000000000000000000000034142430000000000000000000000000000000000000000000000000000000000'') < 2 ^ 53
   \<and> radixValue 16 (slice (js ''000000000000000000000000000000000000000000000000000000000000002000000000000000000000000000000000000000000000000000000000000000034142430000000000000000000000000000000000000000000000000000000000'') 64 128) = 3
   \<and> 128 + 2 * radixValue 16 (slice (js ''000000000000000000000000000000000000000000000000000000000000002000000000000000000000000000000000000000000000000000000000000000034142430000000000000000000000000000000000000000000000000000000000'') 64 128) \<le> length (js ''000000000000000000000000000000000000000000000000000000000000002000000000000000000000000000000000000000000000000000000000000000034142430000000000000000000000000000000000000000000000000000000000'')
   \<and> 3 \<le> maxArguments sample_engine
   \<and> tryDecodeStringFromAbi sample_engine (js ''0x'' @ js ''000000000000000000000000000000000000000000000000000000000000002000000000000000000000000000000000000000000000000000000000000000034142430000000000000000000000000000000000000000000000000000000000'') = Inr (Some (js ''ABC''))
   \<and> tryDecodeStringFromAbi_nft sample_engine (js ''0x'' @ js ''000000000000000000000000000000000000000000000000000000000000002000000000000000000000000000000000000000000000000000000000000000034142430000000000000000000000000000000000000000000000000000000000'') = Inr (Some (js ''ABC''))
   \<and> maxArguments \<lparr>maxArguments = 2, maxBigIntBits = 2 ^ 30, maxStringLength = 2 ^ 29 - 24\<rparr> < 3
   \<and> tryDecodeStringFromAbi \<lparr>maxArguments = 2, maxBigIntBits = 2 ^ 30, maxStringLength = 2 ^ 29 - 24\<rparr>
         (js ''0x'' @ js ''000000000000000000000000000000000000000000000000000000000000002000000000000000000000000000000000000000000000000000000000000000034142430000000000000000000000000000000000000000000000000000000000'') = Inr None
   \<and> tryDecodeStringFromAbi sample_engine (js ''0x'' @ js ''ffffffffffffffffffffffffffffffffffffffffffffffffffffffffffffffff'' @ js ''00000000000000000000000000000000000000000000000000000000000000034142430000000000000000000000000000000000000000000000000000000000'')
       = tryDecodeStringFromAbi sample_engine (js ''0x'' @ js ''0000000000000000000000000000000000000000000000000000000000000020'' @ js ''00000000000000000000000000000000000000000000000000000000000000034142430000000000000000000000000000000000000000000000000000000000'')"
proof -
  let ?D = "js ''000000000000000000000000000000000000000000000000000000000000002000000000000000000000000000000000000000000000000000000000000000034142430000000000000000000000000000000000000000000000000000000000''"
  let ?W = "js ''ffffffffffffffffffffffffffffffffffffffffffffffffffffffffffffffff''"
  let ?W' = "js ''0000000000000000000000000000000000000000000000000000000000000020''"
  let ?R = "js ''00000000000000000000000000000000000000000000000000000000000000034142430000000000000000000000000000000000000000000000000000000000''"
  let ?small = "\<lparr>maxArguments = 2, maxBigIntBits = 2 ^ 30, maxStringLength = 2 ^ 29 - 24\<rparr>"
  have a: "isHex ?D \<and> 64 < length ?D \<and> length ?D < 2 ^ 53"
    by (simp add: hex_eval)
  have b: "radixValue 16 (slice ?D 64 128) = 3"
    by (simp add: hex_eval)
  have c: "hexBytes (take (2 * 3) (drop 128 ?D)) = js ''ABC''"
    by (simp add: hex_eval)
  have l: "128 + 2 * 3 \<le> length ?D" by (simp add: js_def)
  have d: "isHex ?W \<and> isHex ?W' \<and> isHex ?R \<and> length ?W = 64 \<and> length ?W' = 64 \<and> ?R \<noteq> [] \<and> length ?R < 2 ^ 52"
    by (simp add: hex_eval)
  have m: "maxArguments sample_engine = 65536" "maxArguments ?small = 2"
    by (simp_all add: sample_engine_def)
  have x: "length (js ''ABC'') = 3" by (simp add: js_def)
  show ?thesis
    using a b c l d m x dynamic_string_decode[of ?D sample_engine ?W ?W' ?R]
      dynamic_string_decode[of ?D ?small ?W ?W' ?R]
    by simp
qed

text \<open>
  C10: \<open>tryDecodeStringFromAbi\<close> is total for its caller. For every string, in both
  components, it returns a string or \<open>null\<close> and no exception leaves it, whatever the limits of the
  engine, although the body of its \<open>try\<close> block throws on some inputs; every loop of the model is a terminating
  recursion on the text.
\<close>

theorem decoder_total:
  "(\<exists>r. tryDecodeStringFromAbi eng hex = Inr r) \<and> (\<exists>r. tryDecodeStringFromAbi_nft eng hex = Inr r)
   \<and> decode_body eng (js ''zz'') = Inl SyntaxError \<and> tryDecodeStringFromAbi eng (js ''0xzz'') = Inr None
   \<and> decode_body_nft eng (js ''zz'') = Inl SyntaxError \<and> tryDecodeStringFromAbi_nft eng (js ''0xzz'') = Inr None"
proof (intro conjI)
  show "\<exists>r. tryDecodeStringFromAbi eng hex = Inr r"
    by (cases "decode_body eng (slice_from hex 2)") (simp_all add: tryDecodeStringFromAbi_def catch_null_def Let_def)
  show "\<exists>r. tryDecodeStringFromAbi_nft eng hex = Inr r"
    by (cases "decode_body_nft eng (slice_from hex 2)") (simp_all add: tryDecodeStringFromAbi_nft_def catch_null_def Let_def)
qed (simp_all add: decoder_eval)

theorem decoder_total_witness:
  "(\<exists>r. tryDecodeStringFromAbi sample_engine (js ''0xzz'') = Inr r)
   \<and> (\<exists>r. tryDecodeStringFromAbi_nft sample_engine [] = Inr r)"
  using decoder_total[of sample_engine "js ''0xzz''"] decoder_total[of sample_engine "[]"] by simp


subsection \<open>Paths of the decoder that fail\<close>

lemma BigInt_0x: "BigInt (js ''0x'' @ w) = (case digitsValue 16 (trimEnd w) of None \<Rightarrow> Inl SyntaxError | Some n \<Rightarrow> Inr n)"
  by (simp add: BigInt_def StringToBigInt_0x)

lemma decode_body_cases:
  "decode_body eng data =
     (if length data = 64 then Inr (or_null (fromCharCode (fixed_loop data)))
      else if digitsValue 16 (trimEnd (slice data 0 64)) = None then Inl SyntaxError
      else case digitsValue 16 (trimEnd (slice data 64 128)) of
             None \<Rightarrow> Inl SyntaxError
           | Some n \<Rightarrow>
               if maxArguments eng < length (dynamic_loop (bytesHex_of data (Number n)))
               then Inl RangeError
               else Inr (Some (fromCharCode (dynamic_loop (bytesHex_of data (Number n))))))"
  by (auto simp: decode_body_def BigInt_0x Let_def fromCharCode_spread_def split: option.splits)

lemma decode_body_error: "decode_body eng data = Inl e \<Longrightarrow> e = SyntaxError \<or> e = RangeError"
  by (auto simp: decode_body_cases split: option.splits if_splits)

lemma decode_body_null_iff:
  "catch_null (decode_body eng data) = Inr None \<longleftrightarrow>
     (length data = 64 \<and> fromCharCode (fixed_loop data) = [])
     \<or> (length data \<noteq> 64
         \<and> (digitsValue 16 (trimEnd (slice data 0 64)) = None
             \<or> (case digitsValue 16 (trimEnd (slice data 64 128)) of
                   None \<Rightarrow> True
                 | Some n \<Rightarrow> maxArguments eng < length (dynamic_loop (bytesHex_of data (Number n))))))"
  by (auto simp: decode_body_cases catch_null_def or_null_def split: option.splits)

lemma short_payload_throws: "length data < 64 \<Longrightarrow> decode_body eng data = Inl SyntaxError"
  by (simp add: decode_body_cases slice_def trimEnd_def digitsValue_def)


text \<open>
  C7 as stated fails: a truncated payload (length word 3, two bytes present) and a payload
  of odd length (length word 2, three digits present) are decoded to a string, not to
  \<open>null\<close>.
\<close>

theorem truncated_payload_decodes:
  "tryDecodeStringFromAbi sample_engine (js ''0x000000000000000000000000000000000000000000000000000000000000002000000000000000000000000000000000000000000000000000000000000000034142'') = Inr (Some (js ''AB''))
   \<and> tryDecodeStringFromAbi sample_engine (js ''0x00000000000000000000000000000000000000000000000000000000000000200000000000000000000000000000000000000000000000000000000000000002414'') = Inr (Some [65, 4])"
  by (simp add: decoder_eval to_double_small Number_def)

text \<open>
  C7, amended: every path of the decoder of \<open>TokenBalances.tsx\<close> that throws yields
  \<open>null\<close>, and what is thrown is the \<open>SyntaxError\<close> of \<open>BigInt\<close> or the \<open>RangeError\<close> of
  \<open>String.fromCharCode(...arr)\<close>. The decoder returns \<open>null\<close> exactly when the input does
  not start with \<open>0x\<close>, or the payload has 64 code units and the run read from it is
  empty, or the payload has another length and its offset word or its length word, trailing
  white space removed, is empty or holds a code unit that is no hexadecimal digit, or the
  bytes to decode are more than the engine accepts as arguments of one call. So a length
  word that is no number yields \<open>null\<close>, and so does every payload of fewer than 64 code
  units, whose length word is empty. A length that is odd or smaller than announced is by
  itself no failure: a payload of more than 64 hexadecimal digits whose bytes are within the
  limit of the engine decodes to a string, and when it is shorter than its length word
  announces, to the string of the bytes that are present.
\<close>

theorem decode_failure_paths:
  "(decode_body eng data = Inl e \<longrightarrow>
      (e = SyntaxError \<or> e = RangeError) \<and> tryDecodeStringFromAbi eng (js ''0x'' @ data) = Inr None)
   \<and> (tryDecodeStringFromAbi eng hex = Inr None \<longleftrightarrow>
        \<not> startsWith hex (js ''0x'')
        \<or> (length (slice_from hex 2) = 64 \<and> fromCharCode (fixed_loop (slice_from hex 2)) = [])
        \<or> (length (slice_from hex 2) \<noteq> 64
            \<and> (digitsValue 16 (trimEnd (slice (slice_from hex 2) 0 64)) = None
                \<or> (case digitsValue 16 (trimEnd (slice (slice_from hex 2) 64 128)) of
                      None \<Rightarrow> True
                    | Some n \<Rightarrow> maxArguments eng
                        < length (dynamic_loop (bytesHex_of (slice_from hex 2) (Number n)))))))
   \<and> (length data \<noteq> 64 \<and> digitsValue 16 (trimEnd (slice data 64 128)) = None \<longrightarrow>
        tryDecodeStringFromAbi eng (js ''0x'' @ data) = Inr None)
   \<and> (length data < 64 \<longrightarrow> tryDecodeStringFromAbi eng (js ''0x'' @ data) = Inr None)
   \<and> (isHex data \<and> 64 < length data \<and> length data < 2 ^ 53
        \<and> length (hexBytes (take (2 * radixValue 16 (slice data 64 128)) (drop 128 data)))
            \<le> maxArguments eng \<longrightarrow>
        (\<exists>s. tryDecodeStringFromAbi eng (js ''0x'' @ data) = Inr (Some s)))
   \<and> (isHex data \<and> 64 < length data \<and> length data < 2 ^ 53
        \<and> length data < 128 + 2 * radixValue 16 (slice data 64 128)
        \<and> length (hexBytes (drop 128 data)) \<le> maxArguments eng \<longrightarrow>
        tryDecodeStringFromAbi eng (js ''0x'' @ data) = Inr (Some (hexBytes (drop 128 data))))"
proof (intro conjI impI)
  assume "decode_body eng data = Inl e"
  then show "e = SyntaxError \<or> e = RangeError" by (rule decode_body_error)
next
  assume "decode_body eng data = Inl e"
  then show "tryDecodeStringFromAbi eng (js ''0x'' @ data) = Inr None"
    by (simp add: tryDecode_0x catch_null_def)
next
  show "tryDecodeStringFromAbi eng hex = Inr None \<longleftrightarrow>
        \<not> startsWith hex (js ''0x'')
        \<or> (length (slice_from hex 2) = 64 \<and> fromCharCode (fixed_loop (slice_from hex 2)) = [])
        \<or> (length (slice_from hex 2) \<noteq> 64
            \<and> (digitsValue 16 (trimEnd (slice (slice_from hex 2) 0 64)) = None
                \<or> (case digitsValue 16 (trimEnd (slice (slice_from hex 2) 64 128)) of
                      None \<Rightarrow> True
                    | Some n \<Rightarrow> maxArguments eng
                        < length (dynamic_loop (bytesHex_of (slice_from hex 2) (Number n))))))"
  proof (cases "startsWith hex (js ''0x'')")
    case False
    then show ?thesis by (simp add: tryDecodeStringFromAbi_def)
  next
    case True
    then have "hex \<noteq> []" by (auto simp: startsWith_def js_def)
    then have "tryDecodeStringFromAbi eng hex = catch_null (decode_body eng (slice_from hex 2))"
      using True by (simp add: tryDecodeStringFromAbi_def)
    then show ?thesis
      using True by (simp only: decode_body_null_iff) simp
  qed
next
  assume "length data \<noteq> 64 \<and> digitsValue 16 (trimEnd (slice data 64 128)) = None"
  then show "tryDecodeStringFromAbi eng (js ''0x'' @ data) = Inr None"
    by (simp add: tryDecode_0x decode_body_cases catch_null_def)
next
  assume "length data < 64"
  then show "tryDecodeStringFromAbi eng (js ''0x'' @ data) = Inr None"
    by (simp add: tryDecode_0x short_payload_throws catch_null_def)
next
  assume "isHex data \<and> 64 < length data \<and> length data < 2 ^ 53
        \<and> length (hexBytes (take (2 * radixValue 16 (slice data 64 128)) (drop 128 data)))
            \<le> maxArguments eng"
  then show "\<exists>s. tryDecodeStringFromAbi eng (js ''0x'' @ data) = Inr (Some s)"
    by (simp add: tryDecode_0x decode_dynamic_hex catch_null_def)
next
  assume h: "isHex data \<and> 64 < length data \<and> length data < 2 ^ 53
        \<and> length data < 128 + 2 * radixValue 16 (slice data 64 128)
        \<and> length (hexBytes (drop 128 data)) \<le> maxArguments eng"
  then have "length (drop 128 data) \<le> 2 * radixValue 16 (slice data 64 128)"
    by (simp only: length_drop) linarith
  then have "take (2 * radixValue 16 (slice data 64 128)) (drop 128 data) = drop 128 data"
    by (rule take_all)
  then show "tryDecodeStringFromAbi eng (js ''0x'' @ data) = Inr (Some (hexBytes (drop 128 data)))"
    using h by (simp add: tryDecode_0x decode_dynamic_hex catch_null_def)
qed


theorem decode_failure_paths_witness:
  "decode_body sample_engine (js ''zz'') = Inl SyntaxError
   \<and> length (js ''zz'') \<noteq> 64
   \<and> digitsValue 16 (trimEnd (slice (js ''zz'') 64 128)) = None
   \<and> length (js ''zz'') < 64
   \<and> tryDecodeStringFromAbi sample_engine (js ''0x'' @ js ''zz'') = Inr None
   \<and> decode_body sample_engine (js ''0000000000000000000000000000000000000000000000000000000000000020'' @ js ''000000000000000000000000000000000000000000000000000000000001fbd0'' @ replicate 260000 48) = Inl RangeError
   \<and> tryDecodeStringFromAbi sample_engine (js ''0x'' @ js ''0000000000000000000000000000000000000000000000000000000000000020'' @ js ''000000000000000000000000000000000000000000000000000000000001fbd0'' @ replicate 260000 48) = Inr None
   \<and> startsWith (js ''0x00000000000000000000000000000000000000000000000000000000000000200000000000000000000000000000000000000000000000000000000000000002414'') (js ''0x'')
   \<and> tryDecodeStringFromAbi sample_engine (js ''0x00000000000000000000000000000000000000000000000000000000000000200000000000000000000000000000000000000000000000000000000000000002414'') \<noteq> Inr None
   \<and> isHex (js ''000000000000000000000000000000000000000000000000000000000000002000000000000000000000000000000000000000000000000000000000000000034142'')
   \<and> 64 < length (js ''000000000000000000000000000000000000000000000000000000000000002000000000000000000000000000000000000000000000000000000000000000034142'')
   \<and> length (js ''000000000000000000000000000000000000000000000000000000000000002000000000000000000000000000000000000000000000000000000000000000034142'') < 2 ^ 53
   \<and> length (js ''000000000000000000000000000000000000000000000000000000000000002000000000000000000000000000000000000000000000000000000000000000034142'') < 128 + 2 * radixValue 16 (slice (js ''000000000000000000000000000000000000000000000000000000000000002000000000000000000000000000000000000000000000000000000000000000034142'') 64 128)
   \<and> length (hexBytes (drop 128 (js ''000000000000000000000000000000000000000000000000000000000000002000000000000000000000000000000000000000000000000000000000000000034142''))) \<le> maxArguments sample_engine
   \<and> tryDecodeStringFromAbi sample_engine (js ''0x'' @ js ''000000000000000000000000000000000000000000000000000000000000002000000000000000000000000000000000000000000000000000000000000000034142'') = Inr (Some (js ''AB''))"
proof -
  let ?H = "js ''0x00000000000000000000000000000000000000000000000000000000000000200000000000000000000000000000000000000000000000000000000000000002414''"
  let ?D = "js ''000000000000000000000000000000000000000000000000000000000000002000000000000000000000000000000000000000000000000000000000000000034142''"
  let ?L = "js ''0000000000000000000000000000000000000000000000000000000000000020'' @ js ''000000000000000000000000000000000000000000000000000000000001fbd0'' @ replicate 260000 48"
  have a: "decode_body sample_engine (js ''zz'') = Inl SyntaxError"
    by (simp add: decoder_eval)
  have a': "length (js ''zz'') \<noteq> 64 \<and> digitsValue 16 (trimEnd (slice (js ''zz'') 64 128)) = None
      \<and> length (js ''zz'') < 64"
    by (simp add: decoder_eval)
  have r: "decode_body sample_engine ?L = Inl RangeError"
    using long_payload_range_error by simp
  have b: "startsWith ?H (js ''0x'')"
    by (simp add: startsWith_def js_def)
  have c: "length (slice_from ?H 2) \<noteq> 64
      \<and> digitsValue 16 (trimEnd (slice (slice_from ?H 2) 0 64)) \<noteq> None
      \<and> digitsValue 16 (trimEnd (slice (slice_from ?H 2) 64 128)) = Some 2
      \<and> \<not> maxArguments sample_engine < length (dynamic_loop (bytesHex_of (slice_from ?H 2) (Number 2)))"
    by (simp add: decoder_eval to_double_small Number_def)
  have d: "isHex ?D \<and> 64 < length ?D \<and> length ?D < 2 ^ 53
      \<and> length ?D < 128 + 2 * radixValue 16 (slice ?D 64 128)"
    by (simp add: hex_eval)
  have e: "hexBytes (drop 128 ?D) = js ''AB''"
    by (simp add: hex_eval)
  have f: "length (js ''AB'') \<le> maxArguments sample_engine"
    by (simp add: js_def sample_engine_def)
  note zz = decode_failure_paths[of sample_engine "js ''zz''" SyntaxError ?H]
  note ll = decode_failure_paths[of sample_engine ?L RangeError ?H, THEN conjunct1]
  note dd = decode_failure_paths[of sample_engine ?D SyntaxError ?H]
  have 1: "tryDecodeStringFromAbi sample_engine (js ''0x'' @ js ''zz'') = Inr None"
    using a zz[THEN conjunct1] by simp
  have 2: "tryDecodeStringFromAbi sample_engine (js ''0x'' @ ?L) = Inr None"
    using r ll by simp
  have 3: "tryDecodeStringFromAbi sample_engine ?H \<noteq> Inr None"
    using b c zz[THEN conjunct2, THEN conjunct1] by simp
  have 4: "tryDecodeStringFromAbi sample_engine (js ''0x'' @ ?D) = Inr (Some (js ''AB''))"
    using d e f dd[THEN conjunct2, THEN conjunct2, THEN conjunct2, THEN conjunct2, THEN conjunct2]
    by simp
  show ?thesis
    using a a' r b d e f 1 2 3 4 by simp
qed


subsection \<open>\<open>pad32\<close>\<close>

lemma length_padStart0: "length (padStart0 s n) = max n (length s)"
  by (simp add: padStart0_def)

lemma radixValue_append: "radixValue R (xs @ ys) = foldl (\<lambda>acc c. acc * R + digitOf c) (radixValue R xs) ys"
  by (simp add: radixValue_def)

lemma radixValue_zeros: "radixValue R (replicate n 48 @ s) = radixValue R s"
proof -
  have "foldl (\<lambda>acc c. acc * R + digitOf c) 0 (replicate n 48) = 0"
    by (induction n) (simp_all add: digitOf_def digitValue_def)
  then show ?thesis by (simp add: radixValue_def)
qed

text \<open>
  C8 as stated fails: \<open>pad32\<close> returns an input of 65 digits as it is, where the
  specification's \<open>padLeftTo32Bytes\<close> fails with \<open>OversizeValue\<close>.
\<close>

theorem pad32_long_input_unchanged:
  "pad32 (js ''00000000000000000000000000000000000000000000000000000000000000001'')
     = js ''00000000000000000000000000000000000000000000000000000000000000001''
   \<and> padLeftTo32Bytes_spec (js ''00000000000000000000000000000000000000000000000000000000000000001'')
     = Inl OversizeValue"
  by (simp add: pad32_def padStart0_def padLeftTo32Bytes_spec_def js_def)

text \<open>
  C8, amended: \<open>pad32\<close> pads every string of at most 64 digits on the left with \<open>0\<close> to
  exactly 64 digits (the input is the end of the result, the rest is zeros, and the value
  denoted is the same), as the specification's \<open>padLeftTo32Bytes\<close> does; it returns every
  longer string unchanged and never fails.
\<close>

theorem pad32_pads_or_keeps:
  "(length s \<le> 64 \<longrightarrow>
      length (pad32 s) = 64
      \<and> drop (64 - length s) (pad32 s) = s
      \<and> take (64 - length s) (pad32 s) = replicate (64 - length s) 48
      \<and> radixValue 16 (pad32 s) = radixValue 16 s
      \<and> Inr (pad32 s) = padLeftTo32Bytes_spec s)
   \<and> (64 < length s \<longrightarrow> pad32 s = s)"
  by (simp add: pad32_def padStart0_def padLeftTo32Bytes_spec_def radixValue_zeros)

theorem pad32_pads_or_keeps_witness:
  "length (js ''f39fd6e51aad88f6f4ce6ab8827279cfffb92266'') \<le> 64
   \<and> pad32 (js ''f39fd6e51aad88f6f4ce6ab8827279cfffb92266'')
       = js ''000000000000000000000000f39fd6e51aad88f6f4ce6ab8827279cfffb92266''
   \<and> length (pad32 (js ''f39fd6e51aad88f6f4ce6ab8827279cfffb92266'')) = 64
   \<and> 64 < length (js ''00000000000000000000000000000000000000000000000000000000000000001'')
   \<and> pad32 (js ''00000000000000000000000000000000000000000000000000000000000000001'')
       = js ''00000000000000000000000000000000000000000000000000000000000000001''"
proof -
  have a: "length (js ''f39fd6e51aad88f6f4ce6ab8827279cfffb92266'') = 40"
    by (simp add: js_def)
  have b: "length (js ''00000000000000000000000000000000000000000000000000000000000000001'') = 65"
    by (simp add: js_def)
  have c: "replicate (64 - 40) 48 @ js ''f39fd6e51aad88f6f4ce6ab8827279cfffb92266''
      = js ''000000000000000000000000f39fd6e51aad88f6f4ce6ab8827279cfffb92266''"
    by (simp add: js_def eval_nat_numeral)
  have t: "take 24 (pad32 (js ''f39fd6e51aad88f6f4ce6ab8827279cfffb92266'')) = replicate 24 48"
    and dr: "drop 24 (pad32 (js ''f39fd6e51aad88f6f4ce6ab8827279cfffb92266''))
             = js ''f39fd6e51aad88f6f4ce6ab8827279cfffb92266''"
    and l: "length (pad32 (js ''f39fd6e51aad88f6f4ce6ab8827279cfffb92266'')) = 64"
    using a pad32_pads_or_keeps[of "js ''f39fd6e51aad88f6f4ce6ab8827279cfffb92266''"] by simp_all
  have "pad32 (js ''f39fd6e51aad88f6f4ce6ab8827279cfffb92266'')
      = take 24 (pad32 (js ''f39fd6e51aad88f6f4ce6ab8827279cfffb92266''))
        @ drop 24 (pad32 (js ''f39fd6e51aad88f6f4ce6ab8827279cfffb92266''))"
    by (simp only: append_take_drop_id)
  then have e: "pad32 (js ''f39fd6e51aad88f6f4ce6ab8827279cfffb92266'')
      = js ''000000000000000000000000f39fd6e51aad88f6f4ce6ab8827279cfffb92266''"
    using c unfolding t dr by simp
  show ?thesis
    using a b e l
      pad32_pads_or_keeps[of "js ''00000000000000000000000000000000000000000000000000000000000000001''"]
    by simp
qed

subsection \<open>The amount formatter\<close>

lemma sdiv_nonneg: "0 \<le> a \<Longrightarrow> 0 < b \<Longrightarrow> (a::int) sdiv b = a div b"
  by (cases "a = 0") (simp_all add: signed_divide_int_def)

lemma smod_nonneg: "0 \<le> a \<Longrightarrow> 0 < b \<Longrightarrow> (a::int) smod b = a mod b"
  by (cases "a = 0") (simp_all add: signed_modulo_int_def)

lemma fixedDigits_Suc: "fixedDigits (Suc d) n = fixedDigits d (n div 10) @ [48 + n mod 10]"
proof -
  have "\<And>i. i < d \<Longrightarrow> n div 10 ^ (d - i) = n div 10 div 10 ^ (d - 1 - i)"
  proof -
    fix i assume "i < d"
    then have "d - i = Suc (d - 1 - i)" by simp
    then show "n div 10 ^ (d - i) = n div 10 div 10 ^ (d - 1 - i)"
      by (simp add: div_mult2_eq)
  qed
  then show ?thesis by (simp add: fixedDigits_def)
qed

lemma length_fixedDigits: "length (fixedDigits d n) = d"
  by (simp add: fixedDigits_def)

lemma decimalDigits_small: "n < 10 \<Longrightarrow> decimalDigits n = [48 + n]"
  by (subst decimalDigits.simps) simp

lemma decimalDigits_step: "10 \<le> n \<Longrightarrow> decimalDigits n = decimalDigits (n div 10) @ [48 + n mod 10]"
  by (subst decimalDigits.simps) simp

lemma pad_digits: "n < 10 ^ Suc d \<Longrightarrow> padStart0 (decimalDigits n) (Suc d) = fixedDigits (Suc d) n"
proof (induction d arbitrary: n)
  case 0
  then show ?case by (simp add: decimalDigits_small padStart0_def fixedDigits_def)
next
  case (Suc d)
  have lt: "n div 10 < 10 ^ Suc d" using Suc.prems by (simp add: less_mult_imp_div_less)
  have ih: "padStart0 (decimalDigits (n div 10)) (Suc d) = fixedDigits (Suc d) (n div 10)"
    by (rule Suc.IH[OF lt])
  have "padStart0 (decimalDigits n) (Suc (Suc d))
        = padStart0 (decimalDigits (n div 10)) (Suc d) @ [48 + n mod 10]"
  proof (cases "n < 10")
    case True
    then have "n div 10 = 0" by simp
    then show ?thesis
      using True by (simp add: decimalDigits_small padStart0_def replicate_append_same)
  next
    case False
    then show ?thesis by (simp add: decimalDigits_step padStart0_def Suc_diff_le)
  qed
  then show ?case by (simp add: ih fixedDigits_Suc[of "Suc d"])
qed

lemma radixValue_decimalDigits: "radixValue 10 (decimalDigits n) = n"
proof (induction n rule: decimalDigits.induct)
  case (1 n)
  show ?case
  proof (cases "n < 10")
    case True
    then show ?thesis
      by (simp add: decimalDigits_small radixValue_def digitOf_def digitValue_def)
  next
    case False
    then have "radixValue 10 (decimalDigits (n div 10)) = n div 10" using 1 by simp
    moreover have "digitOf (48 + n mod 10) = n mod 10"
      by (simp add: digitOf_def digitValue_def)
    ultimately show ?thesis
      using False by (simp add: decimalDigits_step radixValue_append)
  qed
qed

lemma bigint_pow_10:
  "0 \<le> d \<Longrightarrow> bigint_pow eng 10 d
     = (if maxBigIntBits eng < nat (bitlen (10 ^ nat d)) then Inl RangeError else Inr (10 ^ nat d))"
  by (simp add: bigint_pow_def)

lemma padStart_zero_fits:
  "0 < d \<Longrightarrow> d < 2 ^ 53 \<Longrightarrow> nat d \<le> maxStringLength eng \<Longrightarrow>
     padStart_zero eng s (Finite d) = Inr (padStart0 s (nat d))"
  by (simp add: padStart_zero_def ToLength_def Let_def)

lemma formatUnits_too_wide:
  "0 < d \<Longrightarrow> maxBigIntBits eng < nat (bitlen (10 ^ nat d)) \<Longrightarrow>
     formatUnits eng wei (Finite d) = Inl RangeError"
  by (simp add: formatUnits_def le_zero_def BigInt_of_number_def bigint_pow_10)

lemma bitlen_pow10: "3 * d < bitlen (10 ^ nat d)" if "0 < d"
proof -
  have "(2::int) ^ (3 * nat d) = 8 ^ nat d" by (simp add: power_mult)
  also have "\<dots> \<le> 10 ^ nat d" by (rule power_mono) simp_all
  finally have "(2::int) ^ (nat (3 * d + 1) - 1) \<le> 10 ^ nat d"
    using that by (simp add: nat_add_distrib nat_mult_distrib)
  then have "3 * d + 1 \<le> bitlen (10 ^ nat d)"
    by (simp only: bitlen_ge_iff_power) simp
  then show ?thesis by simp
qed

lemma formatUnits_exponent_too_large:
  assumes "0 < d" "maxBigIntBits eng < nat (3 * d)"
  shows "formatUnits eng wei (Finite d) = Inl RangeError"
proof -
  have "nat (3 * d) \<le> nat (bitlen (10 ^ nat d))"
    using bitlen_pow10[OF assms(1)] by (intro nat_mono) simp
  then show ?thesis using assms by (intro formatUnits_too_wide) simp_all
qed

lemma bitlen_1e18: "bitlen 1000000000000000000 = 60"
  by (rule antisym) (simp_all add: bitlen_le_iff_power bitlen_ge_iff_power)

lemma formatUnits_nonneg:
  assumes "0 \<le> wei" "0 < d" "d < 2 ^ 53"
    and "nat (bitlen (10 ^ nat d)) \<le> maxBigIntBits eng" "nat d \<le> maxStringLength eng"
  shows "formatUnits eng wei (Finite d) = Inr (format_spec wei (nat d))"
proof -
  obtain k where k: "nat d = Suc k" using assms(2) by (metis Suc_pred zero_less_nat_eq)
  have base: "(0::int) < 10 ^ nat d" by simp
  have frac0: "0 \<le> wei mod 10 ^ nat d" by simp
  have fraclt: "nat (wei mod 10 ^ nat d) < 10 ^ Suc k"
  proof -
    have "wei mod 10 ^ nat d < 10 ^ nat d" using base by (rule pos_mod_bound)
    then show ?thesis using frac0 k by (simp add: nat_less_iff)
  qed
  have tl: "ToLength (Finite d) = nat d" using assms by (simp add: ToLength_def)
  have pad: "padStart0 (toString (wei mod 10 ^ nat d)) (nat d) = fixedDigits (nat d) (nat (wei mod 10 ^ nat d))"
  proof -
    have "toString (wei mod 10 ^ nat d) = decimalDigits (nat (wei mod 10 ^ nat d))"
    proof -
      have "\<not> wei mod 10 ^ nat d < 0" using frac0 by linarith
      then show ?thesis by (simp only: toString_def if_False)
    qed
    then show ?thesis using pad_digits[OF fraclt] by (simp only: k)
  qed
  show ?thesis
    using assms
    by (simp add: formatUnits_def le_zero_def BigInt_of_number_def Let_def format_spec_def
        bigint_pow_10 padStart_zero_fits
        sdiv_nonneg[OF assms(1) base] smod_nonneg[OF assms(1) base] pad)
qed

lemma strip_replicate:
  "stripTrailingZeros s @ replicate (length s - length (stripTrailingZeros s)) 48 = s"
proof -
  let ?P = "\<lambda>c::nat. c = 48"
  have tw: "takeWhile ?P xs = replicate (length (takeWhile ?P xs)) 48" for xs
    by (induction xs) auto
  have len: "length (rev s) - length (dropWhile ?P (rev s)) = length (takeWhile ?P (rev s))"
    by (metis add_diff_cancel_right' length_append takeWhile_dropWhile_id)
  have "rev s = takeWhile ?P (rev s) @ dropWhile ?P (rev s)" by simp
  then have "s = rev (dropWhile ?P (rev s)) @ rev (takeWhile ?P (rev s))"
    by (metis rev_append rev_rev_ident)
  also have "rev (takeWhile ?P (rev s)) = replicate (length (takeWhile ?P (rev s))) 48"
    by (subst tw) simp
  finally show ?thesis using len by (simp add: stripTrailingZeros_def)
qed

lemma decimalDigits_no_dot: "46 \<notin> set (decimalDigits n)"
proof (induction n rule: decimalDigits.induct)
  case (1 n)
  show ?case
  proof (cases "n < 10")
    case True
    then show ?thesis by (simp add: decimalDigits_small)
  next
    case False
    then show ?thesis using 1 by (simp add: decimalDigits_step)
  qed
qed

lemma radixValue_fixedDigits: "n < 10 ^ Suc d \<Longrightarrow> radixValue 10 (fixedDigits (Suc d) n) = n"
  using pad_digits[of n d] by (metis padStart0_def radixValue_zeros radixValue_decimalDigits)

lemma units_of_format_spec:
  assumes "0 \<le> wei" "0 < d"
  shows "units_of_string (format_spec wei d) d = wei"
proof -
  obtain k where k: "d = Suc k" using assms(2) by (cases d) auto
  define whole where "whole = wei div 10 ^ d"
  define frac where "frac = nat (wei mod 10 ^ d)"
  define t where "t = stripTrailingZeros (fixedDigits d frac)"
  have wh: "0 \<le> whole" using assms(1) by (simp add: whole_def pos_imp_zdiv_nonneg_iff)
  have ts: "toString whole = decimalDigits (nat whole)" using wh by (simp add: toString_def)
  have nodot: "\<forall>c\<in>set (toString whole). c \<noteq> 46" using decimalDigits_no_dot[of "nat whole"] ts by auto
  have fr: "frac < 10 ^ Suc k"
  proof -
    have "wei mod 10 ^ d < 10 ^ d" by (rule pos_mod_bound) simp
    then show ?thesis by (simp add: frac_def k nat_less_iff)
  qed
  have val: "radixValue 10 (fixedDigits d frac) = frac"
    using radixValue_fixedDigits[OF fr] by (simp add: k)
  have restore: "t @ replicate (d - length t) 48 = fixedDigits d frac"
    using strip_replicate[of "fixedDigits d frac"] by (simp add: t_def length_fixedDigits)
  have rw: "int (radixValue 10 (toString whole)) = whole"
    using wh by (simp add: ts radixValue_decimalDigits)
  have "int frac = wei mod 10 ^ d" by (simp add: frac_def)
  moreover have "whole * 10 ^ d + wei mod 10 ^ d = wei"
    unfolding whole_def by (rule div_mult_mod_eq)
  ultimately have sum: "whole * 10 ^ d + int frac = wei" by simp
  have fs: "format_spec wei d = (if t = [] then toString whole else toString whole @ js ''.'' @ t)"
    by (simp add: format_spec_def Let_def whole_def frac_def t_def)
  have tw: "takeWhile (\<lambda>c. c \<noteq> 46) (format_spec wei d) = toString whole"
    using nodot by (cases "t = []") (simp_all add: fs js_def)
  have dw: "drop 1 (dropWhile (\<lambda>c. c \<noteq> 46) (format_spec wei d)) = t"
  proof (cases "t = []")
    case True
    have fs0: "format_spec wei d = toString whole" using True by (simp add: fs)
    have dw0: "dropWhile (\<lambda>c. c \<noteq> 46) (toString whole) = []"
      using nodot by simp
    show ?thesis unfolding fs0 dw0 using True by simp
  next
    case False
    then have "dropWhile (\<lambda>c. c \<noteq> 46) (format_spec wei d) = 46 # t"
      using nodot by (simp add: fs js_def dropWhile_append2)
    then show ?thesis by simp
  qed
  have "units_of_string (format_spec wei d) d
        = int (radixValue 10 (toString whole)) * 10 ^ d + int (radixValue 10 (fixedDigits d frac))"
    unfolding units_of_string_def Let_def tw dw restore ..
  then show ?thesis using rw val sum by simp
qed

lemma digit_char: "isRadixDigit 10 c \<Longrightarrow> 48 + digitOf c = c \<and> digitOf c < 10"
  by (auto simp: isRadixDigit_def digitOf_def digitValue_def split: if_splits)

lemma radixValue_snoc: "radixValue R (xs @ [c]) = radixValue R xs * R + digitOf c"
  by (simp add: radixValue_def)

lemma radixValue_pos:
  "xs \<noteq> [] \<Longrightarrow> list_all (isRadixDigit 10) xs \<Longrightarrow> hd xs \<noteq> 48 \<Longrightarrow> 0 < radixValue 10 xs"
proof (induction xs rule: rev_induct)
  case Nil
  then show ?case by simp
next
  case (snoc c xs)
  show ?case
  proof (cases "xs = []")
    case True
    then have "c \<noteq> 48" "isRadixDigit 10 c" using snoc.prems by simp_all
    then have "0 < digitOf c" using digit_char[of c] by (cases "digitOf c = 0") auto
    then show ?thesis using True by (simp add: radixValue_def)
  next
    case False
    then have "0 < radixValue 10 xs" using snoc by simp
    then show ?thesis by (simp add: radixValue_snoc)
  qed
qed

lemma decimalDigits_radixValue:
  "s \<noteq> [] \<Longrightarrow> list_all (isRadixDigit 10) s \<Longrightarrow> hd s \<noteq> 48 \<or> length s = 1
   \<Longrightarrow> decimalDigits (radixValue 10 s) = s"
proof (induction s rule: rev_induct)
  case Nil
  then show ?case by simp
next
  case (snoc c xs)
  have c: "48 + digitOf c = c" "digitOf c < 10" using snoc.prems(2) digit_char[of c] by simp_all
  show ?case
  proof (cases "xs = []")
    case True
    then show ?thesis using c by (simp add: radixValue_snoc decimalDigits_small radixValue_def)
  next
    case False
    then have hd: "hd xs \<noteq> 48" using snoc.prems(3) by simp
    have pos: "0 < radixValue 10 xs" using radixValue_pos[OF False _ hd] snoc.prems(2) by simp
    have ih: "decimalDigits (radixValue 10 xs) = xs" using snoc.IH[OF False] snoc.prems(2) hd by simp
    have ge: "10 \<le> radixValue 10 xs * 10 + digitOf c" using pos by simp
    show ?thesis
      using c ih by (simp add: radixValue_snoc decimalDigits_step[OF ge])
  qed
qed

lemmas digits_eval = radixValue_def digitOf_def digitValue_def isRadixDigit_def js_def


lemma formatUnits_parts:
  assumes "0 < d" "d < 2 ^ 53" "0 \<le> w" "0 \<le> f" "f < 10 ^ nat d" "wei = w * 10 ^ nat d + f"
    and "decimalDigits (nat w) = ws" "decimalDigits (nat f) = fs"
    and "nat (bitlen (10 ^ nat d)) \<le> maxBigIntBits eng" "nat d \<le> maxStringLength eng"
  shows "formatUnits eng wei (Finite d)
         = Inr (if stripTrailingZeros (padStart0 fs (nat d)) \<noteq> []
                then ws @ js ''.'' @ stripTrailingZeros (padStart0 fs (nat d)) else ws)"
proof -
  have base: "(0::int) < 10 ^ nat d" by simp
  have wei: "0 \<le> wei" using assms by simp
  have dv: "wei div 10 ^ nat d = w" using assms by simp
  have md: "wei mod 10 ^ nat d = f" using assms by simp
  have tl: "ToLength (Finite d) = nat d" using assms by (simp add: ToLength_def)
  have nw: "\<not> w < 0" and nf: "\<not> f < 0" using assms by simp_all
  show ?thesis
    using assms(1,2,9,10)
    by (simp add: formatUnits_def le_zero_def BigInt_of_number_def Let_def
        bigint_pow_10 padStart_zero_fits
        sdiv_nonneg[OF wei base] smod_nonneg[OF wei base] dv md toString_def nw nf assms(7,8))
qed

lemma formatUnits_example_1:
  assumes "60 \<le> maxBigIntBits eng" "18 \<le> maxStringLength eng"
  shows "formatUnits eng 1234567890123456789 (Finite 18) = Inr (js ''1.234567890123456789'')"
proof -
  have w: "decimalDigits (nat 1) = js ''1''"
    using decimalDigits_radixValue[of "js ''1''"] by (simp add: digits_eval)
  have f: "decimalDigits (nat 234567890123456789) = js ''234567890123456789''"
    using decimalDigits_radixValue[of "js ''234567890123456789''"] by (simp add: digits_eval)
  have "formatUnits eng (1 * 10 ^ nat 18 + 234567890123456789) (Finite 18) = Inr (js ''1.234567890123456789'')"
    using assms
    by (subst formatUnits_parts[OF _ _ _ _ _ refl w f])
      (simp_all add: stripTrailingZeros_def padStart0_def js_def bitlen_1e18)
  then show ?thesis by simp
qed

lemma formatUnits_example_2:
  assumes "60 \<le> maxBigIntBits eng" "18 \<le> maxStringLength eng"
  shows "formatUnits eng 1000000000000000000 (Finite 18) = Inr (js ''1'')"
proof -
  have w: "decimalDigits (nat 1) = js ''1''"
    using decimalDigits_radixValue[of "js ''1''"] by (simp add: digits_eval)
  have f: "decimalDigits (nat 0) = js ''0''"
    using decimalDigits_radixValue[of "js ''0''"] by (simp add: digits_eval)
  have "formatUnits eng (1 * 10 ^ nat 18 + 0) (Finite 18) = Inr (js ''1'')"
    using assms
    by (subst formatUnits_parts[OF _ _ _ _ _ refl w f])
      (simp_all add: stripTrailingZeros_def padStart0_def js_def bitlen_1e18 eval_nat_numeral)
  then show ?thesis by simp
qed

lemma formatUnits_example_3:
  assumes "60 \<le> maxBigIntBits eng" "18 \<le> maxStringLength eng"
  shows "formatUnits eng 0 (Finite 18) = Inr (js ''0'')"
proof -
  have f: "decimalDigits (nat 0) = js ''0''"
    using decimalDigits_radixValue[of "js ''0''"] by (simp add: digits_eval)
  have "formatUnits eng (0 * 10 ^ nat 18 + 0) (Finite 18) = Inr (js ''0'')"
    using assms
    by (subst formatUnits_parts[OF _ _ _ _ _ refl f f])
      (simp_all add: stripTrailingZeros_def padStart0_def js_def bitlen_1e18 eval_nat_numeral)
  then show ?thesis by simp
qed

lemma formatUnits_example_4: "formatUnits eng 5 (Finite 0) = Inr (js ''5'')"
  by (simp add: formatUnits_def le_zero_def toString_def decimalDigits_small js_def)

lemma formatUnits_example_5:
  assumes "60 \<le> maxBigIntBits eng" "18 \<le> maxStringLength eng"
  shows "formatUnits eng (2 ^ 256 - 1) (Finite 18) = Inr (js ''115792089237316195423570985008687907853269984665640564039457.584007913129639935'')"
proof -
  have w: "decimalDigits (nat 115792089237316195423570985008687907853269984665640564039457) = js ''115792089237316195423570985008687907853269984665640564039457''"
    using decimalDigits_radixValue[of "js ''115792089237316195423570985008687907853269984665640564039457''"] by (simp add: digits_eval)
  have f: "decimalDigits (nat 584007913129639935) = js ''584007913129639935''"
    using decimalDigits_radixValue[of "js ''584007913129639935''"] by (simp add: digits_eval)
  have "formatUnits eng (115792089237316195423570985008687907853269984665640564039457 * 10 ^ nat 18 + 584007913129639935) (Finite 18)
      = Inr (js ''115792089237316195423570985008687907853269984665640564039457.584007913129639935'')"
    using assms
    by (subst formatUnits_parts[OF _ _ _ _ _ refl w f])
      (simp_all add: stripTrailingZeros_def padStart0_def js_def bitlen_1e18)
  then show ?thesis by simp
qed

text \<open>
  C6 as stated fails: for \<open>decimals = 1000000000\<close> the power \<open>10n ** BigInt(decimals)\<close> has
  more bits than the engine holds, and \<open>formatUnits\<close> throws a \<open>RangeError\<close> where the claim
  has it return a string.
\<close>

theorem formatUnits_large_decimals_throws:
  "formatUnits sample_engine 1 (Finite 1000000000) = Inl RangeError"
  by (rule formatUnits_exponent_too_large) (simp_all add: sample_engine_def)

text \<open>
  C6, amended: for every amount \<open>wei \<ge> 0\<close> and every \<open>decimals > 0\<close> for which the engine
  holds \<open>10 ^ decimals\<close> as a BigInt and builds a string of \<open>decimals\<close> code units (and
  \<open>decimals < 2 ^ 53\<close>, where \<open>padStart\<close> caps the length) \<open>formatUnits\<close> returns what the
  specification describes: the whole part \<open>wei div 10 ^ decimals\<close>, and after a point the
  remainder written with exactly \<open>decimals\<close> digits and stripped of the zeros at its end, or
  the whole part alone when nothing is left of the fraction. The arithmetic is exact for
  every amount: reading the result back gives \<open>wei\<close>. Where \<open>10 ^ decimals\<close> has more bits
  than the engine holds, \<open>formatUnits\<close> throws a \<open>RangeError\<close>. For \<open>decimals \<le> 0\<close> the result
  is the decimal string of the amount, which denotes the amount. The four examples of the
  specification and the amount \<open>2 ^ 256 - 1\<close> are evaluated, those with 18 decimals on every
  engine that holds 60 bits and builds 18 code units.
\<close>

theorem formatUnits_correct:
  "(0 \<le> wei \<and> 0 < d \<and> d < 2 ^ 53
      \<and> nat (bitlen (10 ^ nat d)) \<le> maxBigIntBits eng \<and> nat d \<le> maxStringLength eng \<longrightarrow>
      formatUnits eng wei (Finite d) = Inr (format_spec wei (nat d))
      \<and> length (fixedDigits (nat d) (nat (wei mod 10 ^ nat d))) = nat d
      \<and> units_of_string (format_spec wei (nat d)) (nat d) = wei)
   \<and> (0 < d \<and> maxBigIntBits eng < nat (bitlen (10 ^ nat d)) \<longrightarrow>
        formatUnits eng wei (Finite d) = Inl RangeError)
   \<and> (d \<le> 0 \<longrightarrow> formatUnits eng wei (Finite d) = Inr (toString wei))
   \<and> (0 \<le> wei \<longrightarrow> int (radixValue 10 (toString wei)) = wei)
   \<and> (60 \<le> maxBigIntBits eng \<and> 18 \<le> maxStringLength eng \<longrightarrow>
        formatUnits eng 1234567890123456789 (Finite 18) = Inr (js ''1.234567890123456789'')
        \<and> formatUnits eng 1000000000000000000 (Finite 18) = Inr (js ''1'')
        \<and> formatUnits eng 0 (Finite 18) = Inr (js ''0'')
        \<and> formatUnits eng (2 ^ 256 - 1) (Finite 18)
            = Inr (js ''115792089237316195423570985008687907853269984665640564039457.584007913129639935''))
   \<and> formatUnits eng 5 (Finite 0) = Inr (js ''5'')"
proof (intro conjI impI)
  assume h: "0 \<le> wei \<and> 0 < d \<and> d < 2 ^ 53
      \<and> nat (bitlen (10 ^ nat d)) \<le> maxBigIntBits eng \<and> nat d \<le> maxStringLength eng"
  then show "formatUnits eng wei (Finite d) = Inr (format_spec wei (nat d))"
    by (simp add: formatUnits_nonneg)
  show "length (fixedDigits (nat d) (nat (wei mod 10 ^ nat d))) = nat d"
    by (rule length_fixedDigits)
  from h show "units_of_string (format_spec wei (nat d)) (nat d) = wei"
    by (simp add: units_of_format_spec)
next
  assume "0 < d \<and> maxBigIntBits eng < nat (bitlen (10 ^ nat d))"
  then show "formatUnits eng wei (Finite d) = Inl RangeError"
    by (simp add: formatUnits_too_wide)
next
  assume "d \<le> 0"
  then show "formatUnits eng wei (Finite d) = Inr (toString wei)"
    by (simp add: formatUnits_def le_zero_def)
next
  assume "0 \<le> wei"
  then show "int (radixValue 10 (toString wei)) = wei"
    by (simp add: toString_def radixValue_decimalDigits)
next
  assume h: "60 \<le> maxBigIntBits eng \<and> 18 \<le> maxStringLength eng"
  then show "formatUnits eng 1234567890123456789 (Finite 18) = Inr (js ''1.234567890123456789'')"
    by (simp add: formatUnits_example_1)
  from h show "formatUnits eng 1000000000000000000 (Finite 18) = Inr (js ''1'')"
    by (simp add: formatUnits_example_2)
  from h show "formatUnits eng 0 (Finite 18) = Inr (js ''0'')"
    by (simp add: formatUnits_example_3)
  from h show "formatUnits eng (2 ^ 256 - 1) (Finite 18)
            = Inr (js ''115792089237316195423570985008687907853269984665640564039457.584007913129639935'')"
    by (intro formatUnits_example_5) simp_all
next
  show "formatUnits eng 5 (Finite 0) = Inr (js ''5'')"
    by (rule formatUnits_example_4)
qed

theorem formatUnits_correct_witness:
  "(0::int) \<le> 1500 \<and> (0::int) < 3 \<and> (3::int) < 2 ^ 53
   \<and> nat (bitlen (10 ^ nat 3)) \<le> maxBigIntBits sample_engine
   \<and> nat 3 \<le> maxStringLength sample_engine
   \<and> formatUnits sample_engine 1500 (Finite 3) = Inr (js ''1.5'')
   \<and> units_of_string (js ''1.5'') 3 = 1500
   \<and> maxBigIntBits \<lparr>maxArguments = 65536, maxBigIntBits = 8, maxStringLength = 2 ^ 29 - 24\<rparr>
       < nat (bitlen (10 ^ nat 3))
   \<and> formatUnits \<lparr>maxArguments = 65536, maxBigIntBits = 8, maxStringLength = 2 ^ 29 - 24\<rparr>
       1500 (Finite 3) = Inl RangeError
   \<and> (- 2::int) \<le> 0
   \<and> formatUnits sample_engine 7 (Finite (- 2)) = Inr (js ''7'')
   \<and> 60 \<le> maxBigIntBits sample_engine \<and> 18 \<le> maxStringLength sample_engine
   \<and> formatUnits sample_engine 1000000000000000000 (Finite 18) = Inr (js ''1'')"
proof -
  let ?small = "\<lparr>maxArguments = 65536, maxBigIntBits = 8, maxStringLength = 2 ^ 29 - 24\<rparr>"
  have w: "decimalDigits (nat 1) = js ''1''"
    using decimalDigits_radixValue[of "js ''1''"] by (simp add: digits_eval)
  have s: "decimalDigits (nat 7) = js ''7''"
    using decimalDigits_radixValue[of "js ''7''"] by (simp add: digits_eval)
  have "fixedDigits (Suc (Suc (Suc 0))) 500 = js ''500''"
    by (simp add: fixedDigits_Suc fixedDigits_def[of 0] js_def)
  then have fd: "fixedDigits 3 500 = js ''500''"
    by (simp only: numeral_3_eq_3)
  have fs: "format_spec 1500 (nat 3) = js ''1.5''"
    using w by (simp add: format_spec_def toString_def fd stripTrailingZeros_def Let_def js_def)
  have ts: "toString 7 = js ''7''" using s by (simp add: toString_def)
  have bl: "bitlen (10 ^ nat 3) = 10"
    by (rule antisym) (simp_all add: bitlen_le_iff_power bitlen_ge_iff_power)
  have lim: "maxBigIntBits sample_engine = 2 ^ 30" "maxStringLength sample_engine = 2 ^ 29 - 24"
    "maxBigIntBits ?small = 8"
    by (simp_all add: sample_engine_def)
  have a: "formatUnits sample_engine 1500 (Finite 3) = Inr (js ''1.5'') \<and> units_of_string (js ''1.5'') 3 = 1500"
    using fs bl lim formatUnits_correct[of 1500 3 sample_engine] by simp
  have r: "formatUnits ?small 1500 (Finite 3) = Inl RangeError"
    using bl lim formatUnits_correct[of 1500 3 ?small] by simp
  have b: "formatUnits sample_engine 7 (Finite (- 2)) = Inr (js ''7'')"
    using ts formatUnits_correct[of 7 "- 2" sample_engine] by simp
  have c: "formatUnits sample_engine 1000000000000000000 (Finite 18) = Inr (js ''1'')"
    using lim formatUnits_correct[of 7 "- 2" sample_engine] by simp
  show ?thesis using a r b c bl lim by simp
qed

subsection \<open>The batch of balances\<close>

lemma find_append_cases:
  "find P (xs @ ys) = (case find P xs of None \<Rightarrow> find P ys | Some x \<Rightarrow> Some x)"
  by (induction xs) auto

lemma byId_fold:
  "foldl (\<lambda>m r. m(resp_id r \<mapsto> r)) m0 data k
   = (case find (\<lambda>r. resp_id r = k) (rev data) of None \<Rightarrow> m0 k | Some r \<Rightarrow> Some r)"
proof (induction data arbitrary: m0)
  case Nil
  then show ?case by simp
next
  case (Cons x xs)
  have "foldl (\<lambda>m r. m(resp_id r \<mapsto> r)) m0 (x # xs) k
        = foldl (\<lambda>m r. m(resp_id r \<mapsto> r)) (m0(resp_id x \<mapsto> x)) xs k"
    by simp
  also have "\<dots> = (case find (\<lambda>r. resp_id r = k) (rev xs) of
                      None \<Rightarrow> (m0(resp_id x \<mapsto> x)) k | Some r \<Rightarrow> Some r)"
    by (rule Cons.IH)
  also have "\<dots> = (case find (\<lambda>r. resp_id r = k) (rev (x # xs)) of
                      None \<Rightarrow> m0 k | Some r \<Rightarrow> Some r)"
    by (cases "find (\<lambda>r. resp_id r = k) (rev xs)") (simp_all add: find_append_cases)
  finally show ?case .
qed

lemma byId_lookup: "byId_of data k = find (\<lambda>r. resp_id r = k) (rev data)"
  by (simp add: byId_of_def byId_fold split: option.splits)

lemma find_distinct_key:
  assumes "distinct (map f xs)"
  shows "find (\<lambda>r. f r = k) xs = Some r \<longleftrightarrow> r \<in> set xs \<and> f r = k"
  using assms
proof (induction xs)
  case Nil
  then show ?case by simp
next
  case (Cons x xs)
  then show ?case by (auto simp: image_iff)
qed

lemma find_same_set:
  assumes "distinct (map f xs)" "distinct (map f ys)" "set xs = set ys"
  shows "find (\<lambda>r. f r = k) xs = find (\<lambda>r. f r = k) ys"
proof (cases "find (\<lambda>r. f r = k) xs")
  case None
  then have "\<forall>r\<in>set ys. f r \<noteq> k" using assms(3) by (auto simp: find_None_iff)
  then have "find (\<lambda>r. f r = k) ys = None" by (auto simp: find_None_iff)
  then show ?thesis using None by simp
next
  case (Some r)
  then have "r \<in> set ys \<and> f r = k" using find_distinct_key[OF assms(1)] assms(3) by metis
  then have "find (\<lambda>r. f r = k) ys = Some r" using find_distinct_key[OF assms(2)] by metis
  then show ?thesis using Some by simp
qed

lemma byId_permuted:
  assumes "distinct (map resp_id data)" "mset data' = mset data"
  shows "byId_of data' = byId_of data"
proof
  fix k
  have s: "set (rev data') = set (rev data)" using assms(2) by (metis set_rev set_mset_mset)
  have "mset (map resp_id data') = mset (map resp_id data)" using assms(2) by (metis mset_map)
  then have d': "distinct (map resp_id data')" using assms(1) by (metis mset_eq_imp_distinct_iff)
  have "distinct (map resp_id (rev data'))" "distinct (map resp_id (rev data))"
    using d' assms(1) by (simp_all add: rev_map[symmetric])
  then show "byId_of data' k = byId_of data k"
    unfolding byId_lookup using s by (rule find_same_set)
qed

lemma byId_member:
  assumes "distinct (map resp_id data)" "r \<in> set data"
  shows "byId_of data (resp_id r) = Some r"
proof -
  have "distinct (map resp_id (rev data))" using assms(1) by (simp add: rev_map[symmetric])
  then show ?thesis
    unfolding byId_lookup using find_distinct_key[of resp_id "rev data" "resp_id r" r] assms(2) by simp
qed

lemma length_requests_of: "length (requests_of addrs) = length addrs"
  by (simp add: requests_of_def)

lemma req_id_requests_of: "i < length addrs \<Longrightarrow> req_id (requests_of addrs ! i) = int i + 1"
  by (simp add: requests_of_def nth_enumerate_eq)

lemma length_fetchBalances: "length (fetchBalances addrs reply) = length addrs"
  by (auto simp: fetchBalances_def correlate_def length_requests_of Let_def split: http_outcome.splits option.splits)

text \<open>
  C1: \<open>fetchBalances\<close> returns one result for each address, in the order of the addresses.
  The slot of request \<open>i\<close> is computed from the response whose \<open>id\<close> is that of the request
  (\<open>i + 1\<close>), whatever its place in the reply; so when the ids of the reply are distinct,
  a reply with the same responses in another order gives the same list. Requests with the
  ids 3, 1, 2 and responses in the order 2, 3, 1 give the results for 3, 1, 2.
\<close>

theorem fetchBalances_order:
  "length (fetchBalances addrs reply) = length addrs
   \<and> length (correlate reqs data) = length reqs
   \<and> (i < length addrs \<longrightarrow>
        fetchBalances addrs (Response True st (Some data)) ! i
          = slot_of (find (\<lambda>r. resp_id r = int i + 1) (rev data)))
   \<and> (distinct (map resp_id data) \<and> r \<in> set data \<and> j < length reqs
        \<and> req_id (reqs ! j) = resp_id r \<longrightarrow>
        correlate reqs data ! j = slot_of (Some r))
   \<and> (distinct (map resp_id data) \<and> mset data' = mset data \<longrightarrow>
        correlate reqs data' = correlate reqs data
        \<and> fetchBalances addrs (Response True st (Some data'))
            = fetchBalances addrs (Response True st (Some data)))
   \<and> correlate
         [\<lparr>req_id = 3, rpc_method = js ''eth_getBalance'', params = [js ''0xc'', js ''latest'']\<rparr>,
          \<lparr>req_id = 1, rpc_method = js ''eth_getBalance'', params = [js ''0xa'', js ''latest'']\<rparr>,
          \<lparr>req_id = 2, rpc_method = js ''eth_getBalance'', params = [js ''0xb'', js ''latest'']\<rparr>]
         [\<lparr>resp_id = 2, result = Some (js ''0x2b''), error = None\<rparr>,
          \<lparr>resp_id = 3, result = Some (js ''0x3c''), error = None\<rparr>,
          \<lparr>resp_id = 1, result = Some (js ''0x1a''), error = None\<rparr>]
       = [Some 60, Some 26, Some 43]"
proof (intro conjI impI)
  show "length (fetchBalances addrs reply) = length addrs" by (rule length_fetchBalances)
  show "length (correlate reqs data) = length reqs" by (simp add: correlate_def)
next
  assume "i < length addrs"
  then show "fetchBalances addrs (Response True st (Some data)) ! i
          = slot_of (find (\<lambda>r. resp_id r = int i + 1) (rev data))"
    by (simp add: fetchBalances_def correlate_def length_requests_of req_id_requests_of byId_lookup)
next
  assume "distinct (map resp_id data) \<and> r \<in> set data \<and> j < length reqs
        \<and> req_id (reqs ! j) = resp_id r"
  then show "correlate reqs data ! j = slot_of (Some r)"
    by (simp add: correlate_def byId_member)
next
  assume h: "distinct (map resp_id data) \<and> mset data' = mset data"
  then have "byId_of data' = byId_of data" by (simp add: byId_permuted)
  then show "correlate reqs data' = correlate reqs data"
    and "fetchBalances addrs (Response True st (Some data'))
            = fetchBalances addrs (Response True st (Some data))"
    by (simp_all add: fetchBalances_def correlate_def)
next
  show "correlate
         [\<lparr>req_id = 3, rpc_method = js ''eth_getBalance'', params = [js ''0xc'', js ''latest'']\<rparr>,
          \<lparr>req_id = 1, rpc_method = js ''eth_getBalance'', params = [js ''0xa'', js ''latest'']\<rparr>,
          \<lparr>req_id = 2, rpc_method = js ''eth_getBalance'', params = [js ''0xb'', js ''latest'']\<rparr>]
         [\<lparr>resp_id = 2, result = Some (js ''0x2b''), error = None\<rparr>,
          \<lparr>resp_id = 3, result = Some (js ''0x3c''), error = None\<rparr>,
          \<lparr>resp_id = 1, result = Some (js ''0x1a''), error = None\<rparr>]
       = [Some 60, Some 26, Some 43]"
    by (simp add: correlate_def byId_of_def slot_of_def decoder_eval)
qed

theorem fetchBalances_order_witness:
  "distinct (map resp_id [\<lparr>resp_id = 2, result = Some (js ''0x2b''), error = None\<rparr>,
                          \<lparr>resp_id = 1, result = Some (js ''0x1a''), error = None\<rparr>])
   \<and> mset [\<lparr>resp_id = 1, result = Some (js ''0x1a''), error = None\<rparr>,
            \<lparr>resp_id = 2, result = Some (js ''0x2b''), error = None\<rparr>]
       = mset [\<lparr>resp_id = 2, result = Some (js ''0x2b''), error = None\<rparr>,
               \<lparr>resp_id = 1, result = Some (js ''0x1a''), error = None\<rparr>]
   \<and> fetchBalances [js ''0xa'', js ''0xb'']
         (Response True 200 (Some [\<lparr>resp_id = 2, result = Some (js ''0x2b''), error = None\<rparr>,
                                   \<lparr>resp_id = 1, result = Some (js ''0x1a''), error = None\<rparr>]))
       = [Some 26, Some 43]
   \<and> fetchBalances [js ''0xa'', js ''0xb'']
         (Response True 200 (Some [\<lparr>resp_id = 1, result = Some (js ''0x1a''), error = None\<rparr>,
                                   \<lparr>resp_id = 2, result = Some (js ''0x2b''), error = None\<rparr>]))
       = [Some 26, Some 43]
   \<and> (0::nat) < length [js ''0xa'', js ''0xb'']
   \<and> fetchBalances [js ''0xa'', js ''0xb'']
         (Response True 200 (Some [\<lparr>resp_id = 2, result = Some (js ''0x2b''), error = None\<rparr>,
                                   \<lparr>resp_id = 1, result = Some (js ''0x1a''), error = None\<rparr>])) ! 0
       = Some 26"
proof -
  let ?r1 = "\<lparr>resp_id = 1, result = Some (js ''0x1a''), error = None\<rparr>"
  let ?r2 = "\<lparr>resp_id = 2, result = Some (js ''0x2b''), error = None\<rparr>"
  let ?A = "[js ''0xa'', js ''0xb'']"
  have d: "distinct (map resp_id [?r2, ?r1])" by simp
  have m: "mset [?r1, ?r2] = mset [?r2, ?r1]" by simp
  have v: "fetchBalances ?A (Response True 200 (Some [?r2, ?r1])) = [Some 26, Some 43]"
    by (simp add: fetchBalances_def requests_of_def correlate_def byId_of_def slot_of_def decoder_eval)
  have s: "slot_of (find (\<lambda>r. resp_id r = int 0 + 1) (rev [?r2, ?r1])) = Some 26"
    by (simp add: slot_of_def decoder_eval)
  show ?thesis
    using d m v s
      fetchBalances_order[of ?A "Response True 200 (Some [?r2, ?r1])" "[]" "[?r2, ?r1]" 0 200 ?r1 0 "[?r1, ?r2]"]
    by simp
qed

subsection \<open>Token metadata\<close>

lemma to_double_overflow:
  assumes "2 ^ 1024 \<le> n"
  shows "to_double n = PosInfinity"
proof -
  define e where "e = bitlen n"
  have "(0::int) < 2 ^ 1024" by simp
  then have npos: "0 < n" using assms by linarith
  have e1025: "1025 \<le> e"
    using assms by (simp add: e_def bitlen_ge_iff_power)
  define sh where "sh = nat (e - 53)"
  have lo: "2 ^ nat (e - 1) \<le> n" using bitlen_bounds[OF npos] by (simp add: e_def)
  have split: "nat (e - 1) = 52 + sh" using e1025 by (simp add: sh_def)
  have q: "2 ^ 52 \<le> n div 2 ^ sh"
  proof -
    have "(2::int) ^ 52 * 2 ^ sh \<le> n" using lo by (simp add: split power_add)
    then show ?thesis
      by (metis mult.commute zdiv_mono1 zero_less_numeral zero_less_power nonzero_mult_div_cancel_right power_not_zero zero_neq_numeral)
  qed
  define q' where "q' = (if 2 ^ (sh - 1) < n mod 2 ^ sh \<or> (n mod 2 ^ sh = 2 ^ (sh - 1) \<and> odd (n div 2 ^ sh)) then n div 2 ^ sh + 1 else n div 2 ^ sh)"
  have q'ge: "2 ^ 52 \<le> q'" using q by (simp add: q'_def)
  have "972 \<le> sh" using e1025 by (simp add: sh_def)
  then have "(2::int) ^ 972 \<le> 2 ^ sh" by (intro power_increasing) auto
  then have "(2::int) ^ 52 * 2 ^ 972 \<le> 2 ^ 52 * 2 ^ sh" by simp
  also have "\<dots> \<le> q' * 2 ^ sh" using q'ge by (simp add: mult_right_mono)
  finally have v: "2 ^ 1024 \<le> q' * 2 ^ sh" by simp
  have ne: "\<not> e \<le> 53" using e1025 by simp
  have abs: "\<bar>n\<bar> = n" using npos by simp
  show ?thesis
    unfolding to_double_def Let_def abs e_def[symmetric] sh_def[symmetric]
    using ne v npos by (auto simp: q'_def)
qed

lemma symbol_of_cases:
  "(rpcCall symbolReply = Inl e' \<longrightarrow> symbol_of eng symbolReply = js ''?'')
   \<and> (rpcCall symbolReply = Inr r \<and> tryDecodeStringFromAbi eng r = Inr None \<longrightarrow> symbol_of eng symbolReply = js ''?'')
   \<and> (rpcCall symbolReply = Inr r \<and> tryDecodeStringFromAbi eng r = Inr (Some s) \<and> s \<noteq> [] \<longrightarrow> symbol_of eng symbolReply = s)
   \<and> (rpcCall symbolReply = Inr r \<and> tryDecodeStringFromAbi eng r = Inr (Some []) \<longrightarrow> symbol_of eng symbolReply = js ''?'')"
  by (simp add: symbol_of_def)

text \<open>\<open>getNftMeta\<close> decodes with the decoder of \<open>NFTBalances.tsx\<close>, which does not read the
  offset word: a reply whose first word is no number gives the symbol there, and \<open>?\<close> in
  the decoder of \<open>TokenBalances.tsx\<close>.\<close>

lemma getNftMeta_own_decoder:
  "symbol (getNftMeta sample_engine a Rejected
      (Response True 200 (Some \<lparr>resp_id = 1, result = Some (js ''0xzz0000000000000000000000000000000000000000000000000000000000000000000000000000000000000000000000000000000000000000000000000000034142430000000000000000000000000000000000000000000000000000000000''), error = None\<rparr>)))
     = js ''ABC''
   \<and> symbol_of sample_engine
      (Response True 200 (Some \<lparr>resp_id = 1, result = Some (js ''0xzz0000000000000000000000000000000000000000000000000000000000000000000000000000000000000000000000000000000000000000000000000000034142430000000000000000000000000000000000000000000000000000000000''), error = None\<rparr>))
     = js ''?''"
  by (simp add: getNftMeta_def nft_text_of_def symbol_of_def rpcCall_def decoder_eval
      to_double_small Number_def)

text \<open>
  C3: in \<open>getTokenMeta\<close> the \<open>decimals()\<close> call is required and the \<open>symbol()\<close> call is
  best-effort. When the \<open>decimals()\<close> request fails, or \<open>BigInt\<close> rejects its result, the
  whole fetch fails with that error. Otherwise the fetch succeeds whatever happens to the
  \<open>symbol()\<close> request: a failed request or a decode that gives \<open>null\<close> leaves the symbol
  \<open>?\<close>, a decoded non-empty string is the symbol. A decimals value that is no finite
  Number (from \<open>2 ^ 1024\<close> on) is replaced by 18.
\<close>

theorem getTokenMeta_policy:
  "(rpcCall decimalsReply = Inl e \<longrightarrow> getTokenMeta eng a decimalsReply symbolReply = Inl e)
   \<and> (rpcCall decimalsReply = Inr h \<and> hexToBigInt h = Inl e \<longrightarrow>
        getTokenMeta eng a decimalsReply symbolReply = Inl e)
   \<and> (rpcCall decimalsReply = Inr h \<and> hexToBigInt h = Inr n \<longrightarrow>
        (\<exists>m. getTokenMeta eng a decimalsReply symbolReply = Inr m
             \<and> address m = a
             \<and> decimals m = (if isFinite (Number n) then Number n else Finite 18)
             \<and> (rpcCall symbolReply = Inl e' \<longrightarrow> symbol m = js ''?'')
             \<and> (rpcCall symbolReply = Inr r \<and> tryDecodeStringFromAbi eng r = Inr None \<longrightarrow>
                  symbol m = js ''?'')
             \<and> (rpcCall symbolReply = Inr r \<and> tryDecodeStringFromAbi eng r = Inr (Some s) \<and> s \<noteq> [] \<longrightarrow>
                  symbol m = s)))
   \<and> (2 ^ 1024 \<le> n \<longrightarrow> \<not> isFinite (Number n))"
proof (intro conjI impI)
  assume "rpcCall decimalsReply = Inl e"
  then show "getTokenMeta eng a decimalsReply symbolReply = Inl e"
    by (simp add: getTokenMeta_def)
next
  assume "rpcCall decimalsReply = Inr h \<and> hexToBigInt h = Inl e"
  then show "getTokenMeta eng a decimalsReply symbolReply = Inl e"
    by (simp add: getTokenMeta_def)
next
  assume h: "rpcCall decimalsReply = Inr h \<and> hexToBigInt h = Inr n"
  let ?m = "\<lparr>address = a, symbol = symbol_of eng symbolReply,
             decimals = (if isFinite (Number n) then Number n else Finite 18)\<rparr>"
  have "getTokenMeta eng a decimalsReply symbolReply = Inr ?m"
    using h by (simp add: getTokenMeta_def Let_def)
  moreover have "address ?m = a" by simp
  moreover have "decimals ?m = (if isFinite (Number n) then Number n else Finite 18)" by simp
  moreover have "rpcCall symbolReply = Inl e' \<longrightarrow> symbol ?m = js ''?''"
    using symbol_of_cases[where symbolReply=symbolReply and e'=e' and eng=eng] by simp
  moreover have "rpcCall symbolReply = Inr r \<and> tryDecodeStringFromAbi eng r = Inr None \<longrightarrow> symbol ?m = js ''?''"
    using symbol_of_cases[where symbolReply=symbolReply and r=r and eng=eng] by simp
  moreover have "rpcCall symbolReply = Inr r \<and> tryDecodeStringFromAbi eng r = Inr (Some s) \<and> s \<noteq> [] \<longrightarrow> symbol ?m = s"
    using symbol_of_cases[where symbolReply=symbolReply and r=r and s=s and eng=eng] by simp
  ultimately show "\<exists>m. getTokenMeta eng a decimalsReply symbolReply = Inr m
             \<and> address m = a
             \<and> decimals m = (if isFinite (Number n) then Number n else Finite 18)
             \<and> (rpcCall symbolReply = Inl e' \<longrightarrow> symbol m = js ''?'')
             \<and> (rpcCall symbolReply = Inr r \<and> tryDecodeStringFromAbi eng r = Inr None \<longrightarrow>
                  symbol m = js ''?'')
             \<and> (rpcCall symbolReply = Inr r \<and> tryDecodeStringFromAbi eng r = Inr (Some s) \<and> s \<noteq> [] \<longrightarrow>
                  symbol m = s)"
    by blast
next
  assume "2 ^ 1024 \<le> n"
  then show "\<not> isFinite (Number n)"
    by (simp add: Number_def to_double_overflow isFinite_def)
qed

theorem getTokenMeta_policy_witness:
  "rpcCall Rejected = Inl NetworkError
   \<and> getTokenMeta sample_engine (js ''0xa'') Rejected Rejected = Inl NetworkError
   \<and> rpcCall (Response True 200 (Some \<lparr>resp_id = 1, result = Some (js ''0x''), error = None\<rparr>))
       = Inr (js ''0x'')
   \<and> hexToBigInt (js ''0x'') = Inl SyntaxError
   \<and> getTokenMeta sample_engine (js ''0xa'')
         (Response True 200 (Some \<lparr>resp_id = 1, result = Some (js ''0x''), error = None\<rparr>)) Rejected
       = Inl SyntaxError
   \<and> hexToBigInt (js ''0x'' @ js ''10000000000000000000000000000000000000000000000000000000000000000000000000000000000000000000000000000000000000000000000000000000000000000000000000000000000000000000000000000000000000000000000000000000000000000000000000000000000000000000000000000000000000000'') = Inr (2 ^ 1024)
   \<and> (\<exists>m. getTokenMeta sample_engine (js ''0xa'')
              (Response True 200 (Some \<lparr>resp_id = 1, result = Some (js ''0x'' @ js ''10000000000000000000000000000000000000000000000000000000000000000000000000000000000000000000000000000000000000000000000000000000000000000000000000000000000000000000000000000000000000000000000000000000000000000000000000000000000000000000000000000000000000000''), error = None\<rparr>))
              (Response False 500 None) = Inr m
          \<and> decimals m = Finite 18 \<and> symbol m = js ''?'')
   \<and> (\<exists>m. getTokenMeta sample_engine (js ''0xa'')
              (Response True 200 (Some \<lparr>resp_id = 1, result = Some (js ''0x6''), error = None\<rparr>))
              (Response True 200 (Some \<lparr>resp_id = 2, result = Some (js ''0x5553444300000000000000000000000000000000000000000000000000000000''), error = None\<rparr>)) = Inr m
          \<and> decimals m = Finite 6 \<and> symbol m = js ''USDC'')"
proof -
  let ?D0 = "Response True 200 (Some \<lparr>resp_id = 1, result = Some (js ''0x''), error = None\<rparr>)"
  let ?DB = "Response True 200 (Some \<lparr>resp_id = 1, result = Some (js ''0x'' @ js ''10000000000000000000000000000000000000000000000000000000000000000000000000000000000000000000000000000000000000000000000000000000000000000000000000000000000000000000000000000000000000000000000000000000000000000000000000000000000000000000000000000000000000000''), error = None\<rparr>)"
  let ?D6 = "Response True 200 (Some \<lparr>resp_id = 1, result = Some (js ''0x6''), error = None\<rparr>)"
  let ?SU = "Response True 200 (Some \<lparr>resp_id = 2, result = Some (js ''0x5553444300000000000000000000000000000000000000000000000000000000''), error = None\<rparr>)"
  have r0: "rpcCall Rejected = Inl NetworkError" by (simp add: rpcCall_def)
  have r1: "rpcCall ?D0 = Inr (js ''0x'')" by (simp add: rpcCall_def)
  have b1: "hexToBigInt (js ''0x'') = Inl SyntaxError" by (simp add: hexToBigInt_def decoder_eval)
  have rB: "rpcCall ?DB = Inr (js ''0x'' @ js ''10000000000000000000000000000000000000000000000000000000000000000000000000000000000000000000000000000000000000000000000000000000000000000000000000000000000000000000000000000000000000000000000000000000000000000000000000000000000000000000000000000000000000000'')" by (simp add: rpcCall_def)
  have hx: "isHex (js ''10000000000000000000000000000000000000000000000000000000000000000000000000000000000000000000000000000000000000000000000000000000000000000000000000000000000000000000000000000000000000000000000000000000000000000000000000000000000000000000000000000000000000000'')" by (simp add: hex_eval)
  have rv: "int (radixValue 16 (js ''10000000000000000000000000000000000000000000000000000000000000000000000000000000000000000000000000000000000000000000000000000000000000000000000000000000000000000000000000000000000000000000000000000000000000000000000000000000000000000000000000000000000000000'')) = 2 ^ 1024" by (simp add: hex_eval)
  have bB: "hexToBigInt (js ''0x'' @ js ''10000000000000000000000000000000000000000000000000000000000000000000000000000000000000000000000000000000000000000000000000000000000000000000000000000000000000000000000000000000000000000000000000000000000000000000000000000000000000000000000000000000000000000'') = Inr (2 ^ 1024)"
    using BigInt_0x_hex[OF hx] rv by (simp add: hexToBigInt_def js_def)
  have rF: "rpcCall (Response False 500 None) = Inl (HttpError 500)" by (simp add: rpcCall_def)
  have r6: "rpcCall ?D6 = Inr (js ''0x6'')" by (simp add: rpcCall_def)
  have b6: "hexToBigInt (js ''0x6'') = Inr 6" by (simp add: hexToBigInt_def decoder_eval)
  have n6: "Number 6 = Finite 6" by (simp add: Number_def to_double_small)
  have rU: "rpcCall ?SU = Inr (js ''0x5553444300000000000000000000000000000000000000000000000000000000'')" by (simp add: rpcCall_def)
  have dU: "tryDecodeStringFromAbi sample_engine (js ''0x5553444300000000000000000000000000000000000000000000000000000000'') = Inr (Some (js ''USDC''))"
    by (simp add: decoder_eval to_double_small)
  have a: "getTokenMeta sample_engine (js ''0xa'') Rejected Rejected = Inl NetworkError"
    using r0 getTokenMeta_policy[where decimalsReply=Rejected and e=NetworkError and eng=sample_engine and a="js ''0xa''" and symbolReply=Rejected] by simp
  have b: "getTokenMeta sample_engine (js ''0xa'') ?D0 Rejected = Inl SyntaxError"
    using r1 b1 getTokenMeta_policy[where decimalsReply="?D0" and e=SyntaxError and eng=sample_engine and a="js ''0xa''" and symbolReply=Rejected and h="js ''0x''"] by simp
  have c: "\<exists>m. getTokenMeta sample_engine (js ''0xa'') ?DB (Response False 500 None) = Inr m
          \<and> decimals m = Finite 18 \<and> symbol m = js ''?''"
    using rB bB rF
      getTokenMeta_policy[where decimalsReply="?DB" and eng=sample_engine and a="js ''0xa''" and symbolReply="Response False 500 None" and h="js ''0x'' @ js ''10000000000000000000000000000000000000000000000000000000000000000000000000000000000000000000000000000000000000000000000000000000000000000000000000000000000000000000000000000000000000000000000000000000000000000000000000000000000000000000000000000000000000000''" and n="2 ^ 1024" and e'="HttpError 500"]
    by auto
  have d: "\<exists>m. getTokenMeta sample_engine (js ''0xa'') ?D6 ?SU = Inr m
          \<and> decimals m = Finite 6 \<and> symbol m = js ''USDC''"
    using r6 b6 n6 rU dU
      getTokenMeta_policy[where decimalsReply="?D6" and eng=sample_engine and a="js ''0xa''" and symbolReply="?SU" and h="js ''0x6''" and n=6 and r="js ''0x5553444300000000000000000000000000000000000000000000000000000000''" and s="js ''USDC''"]
    by (auto simp: isFinite_def js_def)
  show ?thesis using r0 r1 b1 bB a b c d by simp
qed

subsection \<open>The registry\<close>

lemma find_token_None_iff:
  "find_token ts a = None \<longleftrightarrow> toLowerCase a \<notin> (\<lambda>t. toLowerCase (address t)) ` set ts"
  by (simp add: find_token_def find_None_iff image_iff) metis

lemma registry_ok_snoc:
  "registry_ok ts \<Longrightarrow> find_token ts (address m) = None \<Longrightarrow> registry_ok (ts @ [m])"
  by (simp add: registry_ok_def find_token_None_iff)

lemma registry_ok_filter: "registry_ok ts \<Longrightarrow> registry_ok (filter P ts)"
  by (simp add: registry_ok_def distinct_map_filter)

lemma find_token_filter: "find_token ts a = None \<Longrightarrow> find_token (filter P ts) a = None"
  by (auto simp: find_token_None_iff)

lemma inv_initial: "registration_inv initial"
  by (simp add: registration_inv_def initial_def registry_ok_def)

lemma inv_addToken_begin:
  assumes "registration_inv st" "\<not> loadingToken st"
  shows "registration_inv (addToken_begin st)"
proof -
  have e: "addsInFlight st = []" using assms by (auto simp: registration_inv_def)
  show ?thesis
    using assms(1) e by (auto simp: registration_inv_def addToken_begin_def Let_def)
qed

lemma inv_addToken_end:
  assumes "registration_inv st" "getMeta_ok getMeta" "k < length (addsInFlight st)"
  shows "registration_inv (addToken_end (getMeta (addsInFlight st ! k) r1 r2)
            (st\<lparr>addsInFlight := remove_nth k (addsInFlight st)\<rparr>))"
proof -
  obtain a where a: "addsInFlight st = [a]" and k: "k = 0"
    using assms(1,3) by (cases "addsInFlight st") (auto simp: registration_inv_def)
  have none: "find_token (tokens st) a = None" using assms(1) a by (simp add: registration_inv_def)
  have ok: "registry_ok (tokens st)" using assms(1) by (simp add: registration_inv_def)
  show ?thesis
  proof (cases "getMeta a r1 r2")
    case (Inl e)
    then show ?thesis
      using ok by (simp add: a k addToken_end_def remove_nth_def registration_inv_def)
  next
    case (Inr m)
    then have "address m = a" using assms(2) by (auto simp: getMeta_ok_def)
    then have "registry_ok (tokens st @ [m])" using ok none by (simp add: registry_ok_snoc)
    then show ?thesis
      using Inr by (simp add: a k addToken_end_def remove_nth_def registration_inv_def)
  qed
qed

lemma inv_removeToken: "registration_inv st \<Longrightarrow> registration_inv (removeToken addr st)"
  by (auto simp: registration_inv_def removeToken_def registry_ok_filter find_token_filter list_all_iff)

lemma inv_same_registry:
  assumes "registration_inv st" "tokens st' = tokens st" "addsInFlight st' = addsInFlight st"
    "loadingToken st' = loadingToken st"
  shows "registration_inv st'"
  using assms by (simp add: registration_inv_def)

lemma refresh_begin_registry:
  "tokens (refresh_begin now st) = tokens st \<and> addsInFlight (refresh_begin now st) = addsInFlight st
   \<and> loadingToken (refresh_begin now st) = loadingToken st"
  by (simp add: refresh_begin_def split: option.splits)

lemma refresh_end_registry:
  "tokens (refresh_end fmt now task reply st) = tokens st
   \<and> addsInFlight (refresh_end fmt now task reply st) = addsInFlight st
   \<and> loadingToken (refresh_end fmt now task reply st) = loadingToken st"
  by (simp add: refresh_end_def Let_def)

lemma keepActiveValid_registry:
  "tokens (keepActiveValid st) = tokens st \<and> addsInFlight (keepActiveValid st) = addsInFlight st
   \<and> loadingToken (keepActiveValid st) = loadingToken st"
  by (simp add: keepActiveValid_def split: option.splits)

lemma inv_handle_other:
  assumes "registration_inv st" "ev \<noteq> ClickAddToken" "getMeta_ok getMeta"
  shows "registration_inv (handle getMeta fmt st ev)"
proof (cases ev)
  case (TypeTokenInput v)
  then show ?thesis using assms(1) by (simp add: handle_def registration_inv_def)
next
  case ClickAddToken
  then show ?thesis using assms(2) by simp
next
  case (MetaArrives k r1 r2)
  then show ?thesis using assms(1,3) by (simp add: handle_def inv_addToken_end)
next
  case (ClickRemove addr)
  then show ?thesis using assms(1) by (simp add: handle_def inv_removeToken)
next
  case (SelectTab addr)
  then show ?thesis using assms(1) by (simp add: handle_def registration_inv_def)
next
  case (TypeWallet v)
  then show ?thesis using assms(1) by (auto simp: handle_def registration_inv_def split: option.splits)
next
  case RunKeepActiveValid
  then show ?thesis
    using inv_same_registry[OF assms(1), of "keepActiveValid st"] keepActiveValid_registry[of st]
    by (simp add: handle_def)
next
  case (CallRefresh now)
  then show ?thesis
    using inv_same_registry[OF assms(1), of "refresh_begin now st"] refresh_begin_registry[of now st]
    by (simp add: handle_def)
next
  case (BalanceArrives k now reply)
  show ?thesis
  proof (cases "k < length (refreshesInFlight st)")
    case True
    let ?st = "st\<lparr>refreshesInFlight := remove_nth k (refreshesInFlight st)\<rparr>"
    have "registration_inv ?st" using assms(1) by (simp add: registration_inv_def)
    then have "registration_inv (refresh_end fmt now (refreshesInFlight st ! k) reply ?st)"
      using refresh_end_registry[of fmt now "refreshesInFlight st ! k" reply ?st]
      by (simp add: inv_same_registry[of ?st])
    then show ?thesis using True BalanceArrives by (simp add: handle_def)
  next
    case False
    then show ?thesis using assms(1) BalanceArrives by (simp add: handle_def)
  qed
qed

lemma inv_ui_step:
  assumes "registration_inv st" "getMeta_ok getMeta"
  shows "registration_inv (ui_step getMeta fmt st ev)"
proof (cases "ev = ClickAddToken")
  case True
  then show ?thesis
    using assms(1) by (simp add: ui_step_def handle_def inv_addToken_begin)
next
  case False
  then have "registration_inv (handle getMeta fmt st ev)"
    using assms by (simp add: inv_handle_other)
  then show ?thesis
    using assms(1) False by (cases ev) (simp_all add: ui_step_def split: option.splits)
qed

lemma inv_run:
  assumes "getMeta_ok getMeta" "registration_inv st"
  shows "registration_inv (foldl (ui_step getMeta fmt) st evs)"
  using assms(2)
proof (induction evs arbitrary: st)
  case Nil
  then show ?case by simp
next
  case (Cons ev evs)
  then show ?case using inv_ui_step[OF _ assms(1)] by simp
qed

lemma getTokenMeta_ok: "getMeta_ok (getTokenMeta eng)"
  by (auto simp: getMeta_ok_def getTokenMeta_def Let_def split: sum.splits)

lemma nft_getMeta_ok: "getMeta_ok (nft_getMeta eng)"
  by (auto simp: getMeta_ok_def nft_getMeta_def getNftMeta_def)


lemmas component_eval =
  TokenBalances_def NFTBalances_def TokenBalances_calls_def NFTBalances_calls_def
  ui_step_def handle_def active_token_def initial_def addToken_begin_def addToken_end_def removeToken_def
  refresh_begin_def refresh_end_def keepActiveValid_def first_address_def find_token_def
  activeWallet_def validWallet_def isAddress_def toLowerCase_def remove_nth_def
  trim_def trimStart_def trimEnd_def isWhiteSpace_def isRadixDigit_def digitValue_def
  getTokenMeta_def nft_getMeta_def getNftMeta_def symbol_of_def nft_text_of_def rpcCall_def hexToBigInt_def
  getTokenBalance_def token_fmt_def nft_fmt_def registry_ok_def js_def Let_def


text \<open>
  C9 as stated fails: when \<open>addToken\<close> is called again for the same address while the first
  call waits for its metadata, both calls pass the check against the registry and both
  append their entry.
\<close>

theorem overlapping_registrations_duplicate:
  "\<not> registry_ok (tokens (TokenBalances_calls sample_engine
       [TypeTokenInput (js ''0x5FbDB2315678afecb367f032d93F642f64180aa3''),
        ClickAddToken,
        ClickAddToken,
        MetaArrives 0 (Response True 200 (Some \<lparr>resp_id = 1, result = Some (js ''0x12''), error = None\<rparr>)) Rejected,
        MetaArrives 0 (Response True 200 (Some \<lparr>resp_id = 2, result = Some (js ''0x12''), error = None\<rparr>)) Rejected]))
   \<and> \<not> registry_ok (tokens (NFTBalances_calls sample_engine
       [TypeTokenInput (js ''0x5FbDB2315678afecb367f032d93F642f64180aa3''),
        ClickAddToken,
        ClickAddToken,
        MetaArrives 0 Rejected Rejected,
        MetaArrives 0 Rejected Rejected]))"
  by (simp add: component_eval BigInt_def StringToBigInt_def digitsValue_def radixValue_def digitOf_def
      Number_def to_double_small isFinite_def)

text \<open>
  C9, amended: in every state the page reaches, where the registration button is disabled
  while a registration is loading, the registry of each component has no two entries
  whose addresses are equal after lowercasing, and at most one registration waits for its
  metadata.
\<close>

theorem registry_distinct_behind_gate:
  "registry_ok (tokens (TokenBalances eng evs)) \<and> length (addsInFlight (TokenBalances eng evs)) \<le> 1
   \<and> registry_ok (tokens (NFTBalances eng evs)) \<and> length (addsInFlight (NFTBalances eng evs)) \<le> 1"
proof -
  have "registration_inv (TokenBalances eng evs)"
    unfolding TokenBalances_def by (rule inv_run[OF getTokenMeta_ok inv_initial])
  moreover have "registration_inv (NFTBalances eng evs)"
    unfolding NFTBalances_def by (rule inv_run[OF nft_getMeta_ok inv_initial])
  ultimately show ?thesis by (simp add: registration_inv_def)
qed

theorem registry_distinct_behind_gate_witness:
  "map address (tokens (TokenBalances sample_engine
       [TypeTokenInput (js ''0x5FbDB2315678afecb367f032d93F642f64180aa3''),
        ClickAddToken,
        ClickAddToken,
        MetaArrives 0 (Response True 200 (Some \<lparr>resp_id = 1, result = Some (js ''0x12''), error = None\<rparr>)) Rejected,
        MetaArrives 0 (Response True 200 (Some \<lparr>resp_id = 2, result = Some (js ''0x12''), error = None\<rparr>)) Rejected,
        TypeTokenInput (js ''0x5fbdb2315678afecb367f032d93f642f64180aa3''),
        ClickAddToken]))
     = [js ''0x5FbDB2315678afecb367f032d93F642f64180aa3'']
   \<and> error_shown (TokenBalances sample_engine
       [TypeTokenInput (js ''0x5FbDB2315678afecb367f032d93F642f64180aa3''),
        ClickAddToken,
        ClickAddToken,
        MetaArrives 0 (Response True 200 (Some \<lparr>resp_id = 1, result = Some (js ''0x12''), error = None\<rparr>)) Rejected,
        MetaArrives 0 (Response True 200 (Some \<lparr>resp_id = 2, result = Some (js ''0x12''), error = None\<rparr>)) Rejected,
        TypeTokenInput (js ''0x5fbdb2315678afecb367f032d93f642f64180aa3''),
        ClickAddToken])
     = Some AlreadyRegistered
   \<and> registry_ok (tokens (TokenBalances sample_engine
       [TypeTokenInput (js ''0x5FbDB2315678afecb367f032d93F642f64180aa3''),
        ClickAddToken,
        ClickAddToken,
        MetaArrives 0 (Response True 200 (Some \<lparr>resp_id = 1, result = Some (js ''0x12''), error = None\<rparr>)) Rejected,
        MetaArrives 0 (Response True 200 (Some \<lparr>resp_id = 2, result = Some (js ''0x12''), error = None\<rparr>)) Rejected,
        TypeTokenInput (js ''0x5fbdb2315678afecb367f032d93f642f64180aa3''),
        ClickAddToken]))"
proof -
  let ?evs = "[TypeTokenInput (js ''0x5FbDB2315678afecb367f032d93F642f64180aa3''),
        ClickAddToken,
        ClickAddToken,
        MetaArrives 0 (Response True 200 (Some \<lparr>resp_id = 1, result = Some (js ''0x12''), error = None\<rparr>)) Rejected,
        MetaArrives 0 (Response True 200 (Some \<lparr>resp_id = 2, result = Some (js ''0x12''), error = None\<rparr>)) Rejected,
        TypeTokenInput (js ''0x5fbdb2315678afecb367f032d93f642f64180aa3''),
        ClickAddToken]"
  have a: "map address (tokens (TokenBalances sample_engine ?evs)) = [js ''0x5FbDB2315678afecb367f032d93F642f64180aa3'']"
    by (simp add: component_eval BigInt_def StringToBigInt_def digitsValue_def radixValue_def digitOf_def
      Number_def to_double_small isFinite_def)
  have b: "error_shown (TokenBalances sample_engine ?evs) = Some AlreadyRegistered"
    by (simp add: component_eval BigInt_def StringToBigInt_def digitsValue_def radixValue_def digitOf_def
      Number_def to_double_small isFinite_def)
  show ?thesis
    using a b registry_distinct_behind_gate[of sample_engine ?evs] by simp
qed


subsection \<open>Refreshes in flight\<close>

lemma refreshesInFlight_ui_step:
  "refreshesInFlight (ui_step getMeta fmt st ev) = refreshesInFlight st
   \<or> (\<exists>m w. refreshesInFlight (ui_step getMeta fmt st ev)
              = refreshesInFlight st @ [\<lparr>task_meta = m, task_wallet = w, cancelled = False\<rparr>])
   \<or> (\<exists>k. refreshesInFlight (ui_step getMeta fmt st ev) = remove_nth k (refreshesInFlight st))"
proof (cases ev)
  case (CallRefresh now)
  then show ?thesis
    by (auto simp: ui_step_def handle_def refresh_begin_def split: option.splits)
next
  case (BalanceArrives k now reply)
  then show ?thesis
    by (auto simp: ui_step_def handle_def refresh_end_def Let_def)
next
  case (MetaArrives k r1 r2)
  then show ?thesis
    by (auto simp: ui_step_def handle_def addToken_end_def split: sum.splits)
qed (auto simp: ui_step_def handle_def addToken_begin_def removeToken_def keepActiveValid_def Let_def
      split: option.splits)

lemma refresh_never_cancelled:
  "list_all (\<lambda>t. \<not> cancelled t) (refreshesInFlight st)
   \<Longrightarrow> list_all (\<lambda>t. \<not> cancelled t) (refreshesInFlight (foldl (ui_step getMeta fmt) st evs))"
proof (induction evs arbitrary: st)
  case Nil
  then show ?case by simp
next
  case (Cons ev evs)
  have "list_all (\<lambda>t. \<not> cancelled t) (refreshesInFlight (ui_step getMeta fmt st ev))"
    using refreshesInFlight_ui_step[of getMeta fmt st ev] Cons.prems
    by (auto simp: remove_nth_def list_all_iff) (meson in_set_takeD in_set_dropD)+
  then show ?case using Cons.IH by simp
qed

lemma refresh_end_writes:
  "\<not> cancelled task \<Longrightarrow>
   balances (refresh_end fmt now task reply st) (toLowerCase (address (task_meta task))) \<noteq> None"
  by (simp add: refresh_end_def Let_def)

lemma formatUnits_5e18:
  assumes "60 \<le> maxBigIntBits eng" "18 \<le> maxStringLength eng"
  shows "formatUnits eng 5000000000000000000 (Finite 18) = Inr (js ''5'')"
proof -
  have w: "decimalDigits (nat 5) = js ''5''"
    using decimalDigits_radixValue[of "js ''5''"] by (simp add: digits_eval)
  have f: "decimalDigits (nat 0) = js ''0''"
    using decimalDigits_radixValue[of "js ''0''"] by (simp add: digits_eval)
  have "formatUnits eng (5 * 10 ^ nat 18 + 0) (Finite 18) = Inr (js ''5'')"
    using assms
    by (subst formatUnits_parts[OF _ _ _ _ _ refl w f])
      (simp_all add: stripTrailingZeros_def padStart0_def js_def bitlen_1e18 eval_nat_numeral)
  then show ?thesis by simp
qed

lemma formatUnits_7e18:
  assumes "60 \<le> maxBigIntBits eng" "18 \<le> maxStringLength eng"
  shows "formatUnits eng 7000000000000000000 (Finite 18) = Inr (js ''7'')"
proof -
  have w: "decimalDigits (nat 7) = js ''7''"
    using decimalDigits_radixValue[of "js ''7''"] by (simp add: digits_eval)
  have f: "decimalDigits (nat 0) = js ''0''"
    using decimalDigits_radixValue[of "js ''0''"] by (simp add: digits_eval)
  have "formatUnits eng (7 * 10 ^ nat 18 + 0) (Finite 18) = Inr (js ''7'')"
    using assms
    by (subst formatUnits_parts[OF _ _ _ _ _ refl w f])
      (simp_all add: stripTrailingZeros_def padStart0_def js_def bitlen_1e18 eval_nat_numeral)
  then show ?thesis by simp
qed


text \<open>
  C2 fails on the code. A refresh starts for the wallet \<open>0xf39F...\<close>; the wallet is changed
  to \<open>0x7099...\<close> and a second refresh starts; the second one resolves and its balance 7 is
  stored; then the first one resolves and its balance 5, read for the wallet that is no
  longer targeted, replaces it in the balance store. The same happens in \<open>NFTBalances\<close>.
\<close>

theorem stale_refresh_is_written:
  "activeWallet (TokenBalances sample_engine
       [TypeTokenInput (js ''0x5FbDB2315678afecb367f032d93F642f64180aa3''),
        ClickAddToken,
        MetaArrives 0 (Response True 200 (Some \<lparr>resp_id = 1, result = Some (js ''0x12''), error = None\<rparr>)) Rejected,
        TypeWallet (js ''0xf39Fd6e51aad88F6F4ce6aB8827279cffFb92266''),
        CallRefresh 10,
        TypeWallet (js ''0x70997970C51812dc3A010C7d01b50e0d17dc79C8''),
        CallRefresh 20,
        BalanceArrives 1 30 (Response True 200 (Some \<lparr>resp_id = 3, result = Some (js ''0x6124fee993bc0000''), error = None\<rparr>)),
        BalanceArrives 0 40 (Response True 200 (Some \<lparr>resp_id = 2, result = Some (js ''0x4563918244f40000''), error = None\<rparr>))])
     = js ''0x70997970C51812dc3A010C7d01b50e0d17dc79C8''
   \<and> balances (TokenBalances sample_engine
       [TypeTokenInput (js ''0x5FbDB2315678afecb367f032d93F642f64180aa3''),
        ClickAddToken,
        MetaArrives 0 (Response True 200 (Some \<lparr>resp_id = 1, result = Some (js ''0x12''), error = None\<rparr>)) Rejected,
        TypeWallet (js ''0xf39Fd6e51aad88F6F4ce6aB8827279cffFb92266''),
        CallRefresh 10,
        TypeWallet (js ''0x70997970C51812dc3A010C7d01b50e0d17dc79C8''),
        CallRefresh 20,
        BalanceArrives 1 30 (Response True 200 (Some \<lparr>resp_id = 3, result = Some (js ''0x6124fee993bc0000''), error = None\<rparr>))])
       (js ''0x5fbdb2315678afecb367f032d93f642f64180aa3'')
     = Some (Some (js ''7''))
   \<and> balances (TokenBalances sample_engine
       [TypeTokenInput (js ''0x5FbDB2315678afecb367f032d93F642f64180aa3''),
        ClickAddToken,
        MetaArrives 0 (Response True 200 (Some \<lparr>resp_id = 1, result = Some (js ''0x12''), error = None\<rparr>)) Rejected,
        TypeWallet (js ''0xf39Fd6e51aad88F6F4ce6aB8827279cffFb92266''),
        CallRefresh 10,
        TypeWallet (js ''0x70997970C51812dc3A010C7d01b50e0d17dc79C8''),
        CallRefresh 20,
        BalanceArrives 1 30 (Response True 200 (Some \<lparr>resp_id = 3, result = Some (js ''0x6124fee993bc0000''), error = None\<rparr>)),
        BalanceArrives 0 40 (Response True 200 (Some \<lparr>resp_id = 2, result = Some (js ''0x4563918244f40000''), error = None\<rparr>))])
       (js ''0x5fbdb2315678afecb367f032d93f642f64180aa3'')
     = Some (Some (js ''5''))
   \<and> activeWallet (NFTBalances sample_engine
       [TypeTokenInput (js ''0x5FbDB2315678afecb367f032d93F642f64180aa3''),
        ClickAddToken,
        MetaArrives 0 Rejected Rejected,
        TypeWallet (js ''0xf39Fd6e51aad88F6F4ce6aB8827279cffFb92266''),
        CallRefresh 10,
        TypeWallet (js ''0x70997970C51812dc3A010C7d01b50e0d17dc79C8''),
        CallRefresh 20,
        BalanceArrives 1 30 (Response True 200 (Some \<lparr>resp_id = 3, result = Some (js ''0x7''), error = None\<rparr>)),
        BalanceArrives 0 40 (Response True 200 (Some \<lparr>resp_id = 2, result = Some (js ''0x5''), error = None\<rparr>))])
     = js ''0x70997970C51812dc3A010C7d01b50e0d17dc79C8''
   \<and> balances (NFTBalances sample_engine
       [TypeTokenInput (js ''0x5FbDB2315678afecb367f032d93F642f64180aa3''),
        ClickAddToken,
        MetaArrives 0 Rejected Rejected,
        TypeWallet (js ''0xf39Fd6e51aad88F6F4ce6aB8827279cffFb92266''),
        CallRefresh 10,
        TypeWallet (js ''0x70997970C51812dc3A010C7d01b50e0d17dc79C8''),
        CallRefresh 20,
        BalanceArrives 1 30 (Response True 200 (Some \<lparr>resp_id = 3, result = Some (js ''0x7''), error = None\<rparr>))])
       (js ''0x5fbdb2315678afecb367f032d93f642f64180aa3'')
     = Some (Some (js ''7''))
   \<and> balances (NFTBalances sample_engine
       [TypeTokenInput (js ''0x5FbDB2315678afecb367f032d93F642f64180aa3''),
        ClickAddToken,
        MetaArrives 0 Rejected Rejected,
        TypeWallet (js ''0xf39Fd6e51aad88F6F4ce6aB8827279cffFb92266''),
        CallRefresh 10,
        TypeWallet (js ''0x70997970C51812dc3A010C7d01b50e0d17dc79C8''),
        CallRefresh 20,
        BalanceArrives 1 30 (Response True 200 (Some \<lparr>resp_id = 3, result = Some (js ''0x7''), error = None\<rparr>)),
        BalanceArrives 0 40 (Response True 200 (Some \<lparr>resp_id = 2, result = Some (js ''0x5''), error = None\<rparr>))])
       (js ''0x5fbdb2315678afecb367f032d93f642f64180aa3'')
     = Some (Some (js ''5''))"
  by (simp add: component_eval BigInt_def StringToBigInt_def digitsValue_def radixValue_def digitOf_def
      Number_def to_double_small isFinite_def formatUnits_5e18 formatUnits_7e18 sample_engine_def
      toString_def decimalDigits_small)

end
